theory Spec2Isabelle
  imports Main
begin

section \<open>Python values and their text\<close>

text \<open>
  The script \<^verbatim>\<open>diagnose_dwarf.py\<close> reads a binary through pyelftools and angr and
  writes lines of text to standard output. The model keeps standard output as the list of
  the strings handed to \<^verbatim>\<open>print\<close>, one element per call, in order. A Python
  \<^verbatim>\<open>str\<close> is kept as the bytes of its UTF-8 encoding, so a \<^typ>\<open>string\<close> of the
  model is the text as it reaches a UTF-8 terminal. The leading \<^verbatim>\<open>\n\<close> of several
  messages is the first character of the printed string.

  Exceptions are values. \<open>TypeError\<close> and \<open>UnicodeDecodeError\<close> are the two the
  interpreter itself raises on the values of the model; \<open>Raised msg\<close> is any other
  subclass of \<^verbatim>\<open>Exception\<close> raised by a library call, with \<open>msg\<close> the text of
  \<^verbatim>\<open>str(e)\<close>.
\<close>

datatype pyexn = TypeError | UnicodeDecodeError | Raised string

text \<open>
  The value of a DIE attribute, as pyelftools hands it over: an integer (addresses,
  constants, section offsets), \<^verbatim>\<open>bytes\<close> (strings of the debug sections) or
  \<^verbatim>\<open>str\<close>.
\<close>

datatype pyval = IntVal int | BytesVal string | StrVal string

definition digit_char :: "nat \<Rightarrow> char" where
  "digit_char d = ''0123456789abcdef'' ! d"

fun dec_digits :: "nat \<Rightarrow> string" where
  "dec_digits n = (if n < 10 then [digit_char n] else dec_digits (n div 10) @ [digit_char (n mod 10)])"

fun hex_digits :: "nat \<Rightarrow> string" where
  "hex_digits n = (if n < 16 then [digit_char n] else hex_digits (n div 16) @ [digit_char (n mod 16)])"

declare dec_digits.simps [simp del]
declare hex_digits.simps [simp del]

text \<open>\<^verbatim>\<open>str(n)\<close> and \<^verbatim>\<open>hex(n)\<close> of a Python integer.\<close>

definition str_nat :: "nat \<Rightarrow> string" where
  "str_nat n = dec_digits n"

definition str_int :: "int \<Rightarrow> string" where
  "str_int n = (if n < 0 then ''-'' @ dec_digits (nat (- n)) else dec_digits (nat n))"

definition hex_int :: "int \<Rightarrow> string" where
  "hex_int n = (if n < 0 then ''-0x'' @ hex_digits (nat (- n)) else ''0x'' @ hex_digits (nat n))"

text \<open>\<^verbatim>\<open>hex(v)\<close>: only an integer has a hexadecimal text.\<close>

fun hex :: "pyval \<Rightarrow> pyexn + string" where
  "hex (IntVal n) = Inr (hex_int n)"
| "hex (BytesVal b) = Inl TypeError"
| "hex (StrVal s) = Inl TypeError"

text \<open>
  \<^verbatim>\<open>repr\<close> of a \<^verbatim>\<open>bytes\<close> object, which is what an f-string prints for it: the
  quote is \<^verbatim>\<open>'\<close> unless the bytes hold a \<^verbatim>\<open>'\<close> and no \<^verbatim>\<open>"\<close>; the quote and the
  backslash are escaped, tab, newline and carriage return have their letters, and every
  other byte outside the printable ASCII range is \<^verbatim>\<open>\xNN\<close>.
\<close>

definition repr_byte :: "char \<Rightarrow> char \<Rightarrow> string" where
  "repr_byte quote c =
     (let n = (of_char c :: nat) in
      if c = quote \<or> n = 0x5C then [char_of (0x5C :: nat), c]
      else if n = 9 then [char_of (0x5C :: nat), CHR ''t'']
      else if n = 10 then [char_of (0x5C :: nat), CHR ''n'']
      else if n = 13 then [char_of (0x5C :: nat), CHR ''r'']
      else if n < 0x20 \<or> 0x7F \<le> n
        then [char_of (0x5C :: nat), CHR ''x'', digit_char (n div 16), digit_char (n mod 16)]
      else [c])"

definition repr_bytes :: "string \<Rightarrow> string" where
  "repr_bytes b =
     (let quote = (if CHR 0x27 \<in> set b \<and> CHR 0x22 \<notin> set b then CHR 0x22 else CHR 0x27)
      in ''b'' @ [quote] @ concat (map (repr_byte quote) b) @ [quote])"

text \<open>The text an f-string field \<^verbatim>\<open>{v}\<close> prints, and \<^verbatim>\<open>{v}\<close> for a value that may be \<^verbatim>\<open>None\<close>.\<close>

fun format :: "pyval \<Rightarrow> string" where
  "format (IntVal n) = str_int n"
| "format (BytesVal b) = repr_bytes b"
| "format (StrVal s) = s"

fun format_opt :: "pyval option \<Rightarrow> string" where
  "format_opt None = ''None''"
| "format_opt (Some v) = format v"

text \<open>Truth value of a Python object in \<^verbatim>\<open>if v:\<close>.\<close>

fun truthy :: "pyval \<Rightarrow> bool" where
  "truthy (IntVal n) = (n \<noteq> 0)"
| "truthy (BytesVal b) = (b \<noteq> [])"
| "truthy (StrVal s) = (s \<noteq> [])"

fun truthy_opt :: "pyval option \<Rightarrow> bool" where
  "truthy_opt None = False"
| "truthy_opt (Some v) = truthy v"

text \<open>\<^verbatim>\<open>a + b\<close>: integers add, two sequences of one type concatenate, anything else raises.\<close>

fun py_add :: "pyval \<Rightarrow> pyval \<Rightarrow> pyexn + pyval" where
  "py_add (IntVal a) (IntVal b) = Inr (IntVal (a + b))"
| "py_add (BytesVal a) (BytesVal b) = Inr (BytesVal (a @ b))"
| "py_add (StrVal a) (StrVal b) = Inr (StrVal (a @ b))"
| "py_add a b = Inl TypeError"

text \<open>
  \<^verbatim>\<open>b.decode("utf-8")\<close>: the bytes must be well-formed UTF-8 (no stray continuation
  byte, no overlong form, no surrogate, nothing above U+10FFFF); the decoded text is then
  those same bytes in the model, and \<^verbatim>\<open>UnicodeDecodeError\<close> is raised otherwise.
\<close>

definition cont_byte :: "nat \<Rightarrow> bool" where
  "cont_byte b = (0x80 \<le> b \<and> b \<le> 0xBF)"

fun utf8_valid :: "nat list \<Rightarrow> bool" where
  "utf8_valid [] = True"
| "utf8_valid (a # bs) =
     (if a < 0x80 then utf8_valid bs
      else if 0xC2 \<le> a \<and> a \<le> 0xDF then
        (case bs of b # r \<Rightarrow> cont_byte b \<and> utf8_valid r | _ \<Rightarrow> False)
      else if 0xE0 \<le> a \<and> a \<le> 0xEF then
        (case bs of b # c # r \<Rightarrow>
           (if a = 0xE0 then 0xA0 \<le> b \<and> b \<le> 0xBF
            else if a = 0xED then 0x80 \<le> b \<and> b \<le> 0x9F
            else cont_byte b) \<and> cont_byte c \<and> utf8_valid r
         | _ \<Rightarrow> False)
      else if 0xF0 \<le> a \<and> a \<le> 0xF4 then
        (case bs of b # c # d # r \<Rightarrow>
           (if a = 0xF0 then 0x90 \<le> b \<and> b \<le> 0xBF
            else if a = 0xF4 then 0x80 \<le> b \<and> b \<le> 0x8F
            else cont_byte b) \<and> cont_byte c \<and> cont_byte d \<and> utf8_valid r
         | _ \<Rightarrow> False)
      else False)"

definition decode_utf8 :: "string \<Rightarrow> pyexn + string" where
  "decode_utf8 b = (if utf8_valid (map of_char b) then Inr b else Inl UnicodeDecodeError)"

section \<open>The debug information\<close>

text \<open>
  An attribute of a DIE has a form and a value. A DIE has a tag, a dictionary of
  attributes keyed by attribute name, and its children in order.
\<close>

record attribute =
  attr_form :: string
  attr_value :: pyval

datatype die = DIE (tag: string) (attributes: "string \<rightharpoonup> attribute") (children: "die list")

text \<open>
  \<^verbatim>\<open>iter_die\<close> (lines 41 to 44): the generator yields the DIE, then everything the
  generator of each child yields, child after child. The DIE trees are finite, so the
  sequence it yields is a list.
\<close>

fun iter_die :: "die \<Rightarrow> die list" where
  "iter_die (DIE t a cs) = DIE t a cs # concat (map iter_die cs)"

text \<open>
  A range-list entry is seen by the script only through \<^verbatim>\<open>type\<close>, \<^verbatim>\<open>dir\<close>
  and five \<^verbatim>\<open>hasattr\<close> probes: the record keeps the two texts and, for each probed
  name, the attribute's value when the entry has it. A resolved range list is seen through
  \<^verbatim>\<open>type\<close>, its truth value and its first entry.
\<close>

record range_entry =
  entry_type :: string
  entry_dir :: string
  begin_offset :: "int option"
  end_offset :: "int option"
  begin_address :: "int option"
  end_address :: "int option"
  start_offset :: "int option"

record range_list =
  list_type :: string
  entries :: "range_entry list"

text \<open>
  The result of a library call that may raise: \<open>Inl msg\<close> is an exception \<open>e\<close>
  of class \<^verbatim>\<open>Exception\<close> with \<^verbatim>\<open>str(e) = msg\<close>, \<open>Inr x\<close> the value returned.
\<close>

type_synonym 'a raises = "string + 'a"

record compile_unit =
  get_top_DIE :: die

text \<open>
  \<open>get_range_list_at_offset\<close> stands for lines 61 to 63 as one call:
  \<^verbatim>\<open>dwarf_info.range_lists().get_range_list_at_offset(offset)\<close>.
\<close>

record dwarf_info =
  iter_CUs :: "compile_unit list"
  get_range_list_at_offset :: "pyval \<Rightarrow> range_list raises"

record elf_file =
  has_dwarf_info :: bool
  get_dwarf_info :: dwarf_info

section \<open>The project helpers and the symbolic-execution library\<close>

text \<open>
  What the second and third phase read from \<^verbatim>\<open>src.analysis.dwarf\<close>, angr and
  \<^verbatim>\<open>src.analysis.angr.sim_exec\<close>. Objects that are only printed are kept as the text
  an f-string prints for them.
\<close>

record tygr_var =
  var_name :: string
  var_type :: string
  func_param :: string

record tygr_subprogram =
  func_name :: string
  low_high_pc :: "int \<times> int"
  dwarf_subprogram_to_vars :: "tygr_var list raises"

record cfg_function =
  fn_name :: string
  fn_size :: int

record cfg =
  cfg_functions :: "(int \<times> cfg_function) list"
  model_type :: string

record sim_result =
  result_text :: string
  tups :: nat

record strategy =
  strategy_cfg_functions :: nat
  sim_exec_function :: "int \<Rightarrow> sim_result raises"

record project =
  project_text :: string
  arch :: string

text \<open>
  Everything outside the script that a run depends on: the command line, and the outcome
  of each library call the script makes. \<open>ELFFile\<close> is \<^verbatim>\<open>open(binary_path, "rb")\<close>
  followed by \<^verbatim>\<open>ELFFile(f)\<close>; \<open>dwarf_info_to_subprograms\<close> is the import of the
  helpers and the three calls of lines 121 to 126, which print nothing between them;
  \<open>LessSimpleDominatorStrategy\<close> is the import of line 189 and the constructor call of
  line 191. \<open>describe_form_class\<close> is the table lookup of pyelftools, which raises for a
  form outside its table.
\<close>

record world =
  argv :: "string list"
  elftools_version :: string
  ELFFile :: "elf_file raises"
  describe_form_class :: "string \<Rightarrow> string raises"
  dwarf_info_to_subprograms :: "tygr_subprogram list raises"
  angr_version :: "string raises"
  Project :: "project raises"
  CFGFast :: "cfg raises"
  LessSimpleDominatorStrategy :: "strategy raises"

section \<open>The DWARF summary (lines 32 to 116)\<close>

record state =
  cu_count :: nat
  subprog_count :: nat
  subprog_with_pc :: nat
  stdout :: "string list"

definition print :: "string \<Rightarrow> state \<Rightarrow> state" where
  "print s st = st\<lparr>stdout := stdout st @ [s]\<rparr>"

definition print_lines :: "string list \<Rightarrow> state \<Rightarrow> state" where
  "print_lines ls st = st\<lparr>stdout := stdout st @ ls\<rparr>"

text \<open>
  Lines 49 to 53: the name attribute, when present, is replaced by its value, and a
  \<^verbatim>\<open>bytes\<close> value by its decoded text. An attribute object is a non-empty named
  tuple, so \<^verbatim>\<open>if func_name:\<close> holds whenever the attribute is present.
\<close>

definition get_func_name :: "die \<Rightarrow> pyexn + pyval option" where
  "get_func_name die =
     (case attributes die ''DW_AT_name'' of
        None \<Rightarrow> Inr None
      | Some a \<Rightarrow>
          (case attr_value a of
             BytesVal b \<Rightarrow>
               (case decode_utf8 b of Inl e \<Rightarrow> Inl e | Inr s \<Rightarrow> Inr (Some (StrVal s)))
           | v \<Rightarrow> Inr (Some v)))"

text \<open>Lines 70 to 84: the report on the first entry of a range list.\<close>

definition has_attr :: "string \<Rightarrow> int option \<Rightarrow> string list" where
  "has_attr name v = (case v of None \<Rightarrow> [] | Some x \<Rightarrow> [''    Has '' @ name @ '': '' @ str_int x])"

definition report_first_range :: "range_entry \<Rightarrow> string list" where
  "report_first_range first_range =
     [''    First range entry type: '' @ entry_type first_range,
      ''    First range entry attributes: '' @ entry_dir first_range]
     @ has_attr ''begin_offset'' (begin_offset first_range)
     @ has_attr ''end_offset'' (end_offset first_range)
     @ has_attr ''begin_address'' (begin_address first_range)
     @ has_attr ''end_address'' (end_address first_range)
     @ has_attr ''start_offset'' (start_offset first_range)"

text \<open>
  Lines 59 to 89, method 1. The three calls that can raise come before the first
  \<^verbatim>\<open>print\<close> of the \<^verbatim>\<open>try\<close> block, so the handler's two lines are all that a failed
  resolution prints.
\<close>

definition ranges_branch :: "dwarf_info \<Rightarrow> pyval option \<Rightarrow> attribute \<Rightarrow> state \<Rightarrow> state" where
  "ranges_branch di name ranges_attr st =
     (let ranges_offset = attr_value ranges_attr in
      case get_range_list_at_offset di ranges_offset of
        Inl msg \<Rightarrow>
          print_lines
            [''\<newline>  Subprogram: '' @ format_opt name,
             ''    ERROR processing ranges: '' @ msg] st
      | Inr ranges \<Rightarrow>
          (let st1 = print_lines
                 [''\<newline>  Subprogram: '' @ format_opt name,
                  ''    Has DW_AT_ranges, offset='' @ format ranges_offset,
                  ''    Range list type: '' @ list_type ranges] st
           in case entries ranges of
                [] \<Rightarrow> st1
              | first_range # rest \<Rightarrow>
                  (let st2 = print_lines (report_first_range first_range) st1
                   in st2\<lparr>subprog_with_pc := subprog_with_pc st2 + 1\<rparr>)))"

text \<open>Lines 96 to 104: the high bound, from the form class of the high-PC attribute.\<close>

definition resolve_high_pc :: "world \<Rightarrow> pyval \<Rightarrow> attribute \<Rightarrow> pyexn + pyval option" where
  "resolve_high_pc w low_pc highpc_attr =
     (case describe_form_class w (attr_form highpc_attr) of
        Inl msg \<Rightarrow> Inl (Raised msg)
      | Inr highpc_class \<Rightarrow>
          if highpc_class = ''address'' then Inr (Some (attr_value highpc_attr))
          else if highpc_class = ''constant'' then
            (case py_add low_pc (attr_value highpc_attr) of
               Inl e \<Rightarrow> Inl e
             | Inr v \<Rightarrow> Inr (Some v))
          else Inr None)"

text \<open>\<^verbatim>\<open>hex\<close> of a value that may be \<^verbatim>\<open>None\<close>.\<close>

fun hex_opt :: "pyval option \<Rightarrow> pyexn + string" where
  "hex_opt None = Inl TypeError"
| "hex_opt (Some v) = hex v"

text \<open>
  Lines 92 to 109, method 2. Nothing is printed and nothing counted unless the high-PC
  attribute is present and its resolved bound is true in \<^verbatim>\<open>if high_pc:\<close>.
\<close>

definition low_high_branch ::
  "world \<Rightarrow> pyval option \<Rightarrow> die \<Rightarrow> attribute \<Rightarrow> state \<Rightarrow> state \<times> pyexn option" where
  "low_high_branch w name die low_attr st =
     (let low_pc = attr_value low_attr in
      case attributes die ''DW_AT_high_pc'' of
        None \<Rightarrow> (st, None)
      | Some highpc_attr \<Rightarrow>
          (case resolve_high_pc w low_pc highpc_attr of
             Inl e \<Rightarrow> (st, Some e)
           | Inr high_pc \<Rightarrow>
               if truthy_opt high_pc then
                 (let st1 = print (''\<newline>  Subprogram: '' @ format_opt name) st in
                  case hex low_pc of
                    Inl e \<Rightarrow> (st1, Some e)
                  | Inr l \<Rightarrow>
                      (case hex_opt high_pc of
                         Inl e \<Rightarrow> (st1, Some e)
                       | Inr h \<Rightarrow>
                           (let st2 = print (''    low_pc='' @ l @ '', high_pc='' @ h) st1
                            in (st2\<lparr>subprog_with_pc := subprog_with_pc st2 + 1\<rparr>, None))))
               else (st, None)))"

text \<open>
  Lines 47 to 111: the body of the loop over the DIEs of a compilation unit. The result is
  the state reached and the exception that left the loop, if one did.
\<close>

definition process_die :: "world \<Rightarrow> dwarf_info \<Rightarrow> die \<Rightarrow> state \<Rightarrow> state \<times> pyexn option" where
  "process_die w di die st =
     (if tag die = ''DW_TAG_subprogram'' then
        (let st1 = st\<lparr>subprog_count := subprog_count st + 1\<rparr> in
         case get_func_name die of
           Inl e \<Rightarrow> (st1, Some e)
         | Inr name \<Rightarrow>
             (case attributes die ''DW_AT_ranges'' of
                Some ranges_attr \<Rightarrow> (ranges_branch di name ranges_attr st1, None)
              | None \<Rightarrow>
                  (case attributes die ''DW_AT_low_pc'' of
                     Some low_attr \<Rightarrow> low_high_branch w name die low_attr st1
                   | None \<Rightarrow>
                       (print (''\<newline>  Subprogram: '' @ format_opt name @ '' - NO PC INFO'') st1,
                        None))))
      else (st, None))"

fun for_dies :: "world \<Rightarrow> dwarf_info \<Rightarrow> die list \<Rightarrow> state \<Rightarrow> state \<times> pyexn option" where
  "for_dies w di [] st = (st, None)"
| "for_dies w di (die # dies) st =
     (case process_die w di die st of
        (st1, Some e) \<Rightarrow> (st1, Some e)
      | (st1, None) \<Rightarrow> for_dies w di dies st1)"

fun for_CUs :: "world \<Rightarrow> dwarf_info \<Rightarrow> compile_unit list \<Rightarrow> state \<Rightarrow> state \<times> pyexn option" where
  "for_CUs w di [] st = (st, None)"
| "for_CUs w di (cu # cus) st =
     (let st1 = st\<lparr>cu_count := cu_count st + 1\<rparr> in
      case for_dies w di (iter_die (get_top_DIE cu)) st1 of
        (st2, Some e) \<Rightarrow> (st2, Some e)
      | (st2, None) \<Rightarrow> for_CUs w di cus st2)"

text \<open>Lines 113 to 116.\<close>

definition summary :: "state \<Rightarrow> string list" where
  "summary st =
     [''\<newline>=== Summary ==='',
      ''Compilation Units: '' @ str_nat (cu_count st),
      ''Total subprograms: '' @ str_nat (subprog_count st),
      ''Subprograms with PC range: '' @ str_nat (subprog_with_pc st)]"

section \<open>The cross-check against the project helpers (lines 119 to 151)\<close>

text \<open>Lines 137 to 142: the count, the first five variables, and how many more there are.\<close>

definition report_vars :: "tygr_var list \<Rightarrow> string list" where
  "report_vars vars_list =
     [''    Variables found: '' @ str_nat (length vars_list)]
     @ map (\<lambda>var. ''      - '' @ var_name var @ '': '' @ var_type var
                    @ '' (param='' @ func_param var @ '')'') (take 5 vars_list)
     @ (if length vars_list > 5
        then [''      ... and '' @ str_nat (length vars_list - 5) @ '' more'']
        else [])"

text \<open>
  Lines 130 to 146: one subprogram of the helpers' list. A failure of the variable
  extraction is caught here and the loop goes on.
\<close>

definition report_subprogram :: "tygr_subprogram \<Rightarrow> string list" where
  "report_subprogram subprog =
     [''\<newline>  Function: '' @ func_name subprog,
      ''    PC range: '' @ hex_int (fst (low_high_pc subprog)) @ '' - ''
        @ hex_int (snd (low_high_pc subprog))]
     @ (case dwarf_subprogram_to_vars subprog of
          Inl msg \<Rightarrow> [''    ERROR getting variables: '' @ msg]
        | Inr vars_list \<Rightarrow> report_vars vars_list)"

definition tygr_parsing_test :: "world \<Rightarrow> string list" where
  "tygr_parsing_test w =
     [''\<newline>=== Testing TYGR's DWARF parsing ==='']
     @ (case dwarf_info_to_subprograms w of
          Inl msg \<Rightarrow> [''ERROR in TYGR parsing: '' @ msg]
        | Inr subprog_list \<Rightarrow>
            [''TYGR found '' @ str_nat (length subprog_list) @ '' subprograms'']
            @ concat (map report_subprogram subprog_list))"

section \<open>The symbolic-execution test (lines 154 to 209)\<close>

definition main_addr :: int where
  "main_addr = 0x10908"

text \<open>
  Lines 176 to 185: \<^verbatim>\<open>cfg.functions.get(main_addr)\<close> is the function at that address
  or \<^verbatim>\<open>None\<close>; a function object is true in \<^verbatim>\<open>if func:\<close>. The function map is
  kept as its items in order.
\<close>

definition check_main_function :: "cfg \<Rightarrow> string list" where
  "check_main_function c =
     (case map_of (cfg_functions c) main_addr of
        Some func \<Rightarrow>
          [''\<newline>Main function found in CFG at '' @ hex_int main_addr,
           ''  Function name: '' @ fn_name func,
           ''  Function size: '' @ str_int (fn_size func)]
      | None \<Rightarrow>
          [''\<newline>WARNING: Main function NOT found at '' @ hex_int main_addr,
           ''Available functions:'']
          @ map (\<lambda>(addr, fn). ''  '' @ hex_int addr @ '': '' @ fn_name fn)
              (take 10 (cfg_functions c)))"

text \<open>Lines 196 to 204: the inner \<^verbatim>\<open>try\<close> around the symbolic execution of main.\<close>

definition attempt_sim_exec :: "strategy \<Rightarrow> string list" where
  "attempt_sim_exec strat =
     [''\<newline>Attempting symbolic execution of main...'']
     @ (case sim_exec_function strat main_addr of
          Inl msg \<Rightarrow> [''ERROR in sim_exec_function: '' @ msg]
        | Inr result \<Rightarrow>
            [''Symbolic execution result: '' @ result_text result,
             ''Number of state tuples: '' @ str_nat (tups result)])"

text \<open>
  The body of the outer \<^verbatim>\<open>try\<close>: the lines printed, and the exception that left the
  body, if one did.
\<close>

definition symbolic_execution_body :: "world \<Rightarrow> string list \<times> string option" where
  "symbolic_execution_body w =
     (case angr_version w of
        Inl msg \<Rightarrow> ([], Some msg)
      | Inr v \<Rightarrow>
          (let out1 = [''angr version: '' @ v] in
           case Project w of
             Inl msg \<Rightarrow> (out1, Some msg)
           | Inr proj \<Rightarrow>
               (let out2 = out1 @
                      [''Project loaded: '' @ project_text proj,
                       ''Architecture: '' @ arch proj,
                       ''\<newline>Generating CFG...'']
                in case CFGFast w of
                     Inl msg \<Rightarrow> (out2, Some msg)
                   | Inr c \<Rightarrow>
                       (let out3 = out2 @
                              [''CFG generated'',
                               ''CFG functions: '' @ str_nat (length (cfg_functions c)),
                               ''CFG model type: '' @ model_type c]
                              @ check_main_function c
                              @ [''\<newline>=== Testing LessSimpleDominatorStrategy ==='']
                        in case LessSimpleDominatorStrategy w of
                             Inl msg \<Rightarrow> (out3, Some msg)
                           | Inr strat \<Rightarrow>
                               (out3 @
                                [''Strategy created'',
                                 ''Strategy CFG functions: ''
                                   @ str_nat (strategy_cfg_functions strat)]
                                @ attempt_sim_exec strat, None)))))"

definition symbolic_execution_test :: "world \<Rightarrow> string list" where
  "symbolic_execution_test w =
     [''\<newline>=== Testing Symbolic Execution ==='']
     @ (case symbolic_execution_body w of
          (out, None) \<Rightarrow> out
        | (out, Some msg) \<Rightarrow> out @ [''ERROR in symbolic execution test: '' @ msg])"

section \<open>The script\<close>

text \<open>
  How a run ends: the script reaches its last line, \<^verbatim>\<open>sys.exit\<close> is called with a
  status, or an exception that no handler catches ends it.
\<close>

datatype outcome = Finished | Exited int | Uncaught pyexn

text \<open>The DWARF summary from the counters at zero, after the lines already printed.\<close>

definition dwarf_summary :: "world \<Rightarrow> dwarf_info \<Rightarrow> string list \<Rightarrow> state \<times> pyexn option" where
  "dwarf_summary w di out =
     for_CUs w di (iter_CUs di)
       \<lparr>cu_count = 0, subprog_count = 0, subprog_with_pc = 0, stdout = out\<rparr>"

definition main :: "world \<Rightarrow> string list \<times> outcome" where
  "main w =
     (if length (argv w) < 2 then ([''Usage: python diagnose_dwarf.py <binary>''], Exited 1)
      else
        (let binary_path = argv w ! 1;
             out0 = [''Analyzing: '' @ binary_path,
                     ''pyelftools version: '' @ elftools_version w]
         in case ELFFile w of
              Inl msg \<Rightarrow> (out0, Uncaught (Raised msg))
            | Inr elf \<Rightarrow>
                if \<not> has_dwarf_info elf
                then (out0 @ [''ERROR: No DWARF info in binary''], Exited 1)
                else
                  (case dwarf_summary w (get_dwarf_info elf) (out0 @ [''DWARF info found'']) of
                     (st, Some e) \<Rightarrow> (stdout st, Uncaught e)
                   | (st, None) \<Rightarrow>
                       (stdout st @ summary st @ tygr_parsing_test w
                          @ symbolic_execution_test w, Finished))))"

section \<open>Notions used in the statements\<close>

text \<open>The counters at zero and nothing printed.\<close>

definition initial_state :: state where
  "initial_state = \<lparr>cu_count = 0, subprog_count = 0, subprog_with_pc = 0, stdout = []\<rparr>"

text \<open>
  The report on a range entry opens with the line \<^verbatim>\<open>First range entry type\<close>, and no other
  line of the script starts so: the entries reported are counted by those lines.
\<close>

fun starts_with :: "string \<Rightarrow> string \<Rightarrow> bool" where
  "starts_with [] s = True"
| "starts_with (p # ps) [] = False"
| "starts_with (p # ps) (c # cs) = (p = c \<and> starts_with ps cs)"

definition range_entries_printed :: "string list \<Rightarrow> nat" where
  "range_entries_printed out = length (filter (starts_with ''    First range entry type: '') out)"

text \<open>The DIEs of a tree that are subprograms, counted on the tree itself.\<close>

fun count_subprograms :: "die \<Rightarrow> nat" where
  "count_subprograms (DIE t a cs) =
     (if t = ''DW_TAG_subprogram'' then 1 else 0) + sum_list (map count_subprograms cs)"

text \<open>
  A position in a DIE tree is the list of child indices that leads to it from the root;
  \<open>die_at d p\<close> is the DIE at position \<open>p\<close> of the tree \<open>d\<close>, if there is one.
\<close>

fun die_at :: "die \<Rightarrow> nat list \<Rightarrow> die option" where
  "die_at d [] = Some d"
| "die_at d (i # p) = (if i < length (children d) then die_at (children d ! i) p else None)"

text \<open>
  The order of a depth-first pre-order walk on positions: a position is before the
  positions below it, and at the first index where two positions part the smaller index
  is first.
\<close>

fun path_before :: "nat list \<Rightarrow> nat list \<Rightarrow> bool" where
  "path_before [] [] = False"
| "path_before [] (j # q) = True"
| "path_before (i # p) [] = False"
| "path_before (i # p) (j # q) = (i < j \<or> (i = j \<and> path_before p q))"

text \<open>The positions of a tree, listed root first and then child by child.\<close>

fun preorder_paths :: "die \<Rightarrow> nat list list"
  and preorder_paths_from :: "nat \<Rightarrow> die list \<Rightarrow> nat list list" where
  "preorder_paths (DIE t a cs) = [] # preorder_paths_from 0 cs"
| "preorder_paths_from i [] = []"
| "preorder_paths_from i (c # cs) = map ((#) i) (preorder_paths c) @ preorder_paths_from (Suc i) cs"

section \<open>Example inputs\<close>

text \<open>
  Example inputs: attributes of the usual forms, a range-list section with an empty list at
  offset 0 and a list of two entries at offset 8, a table of form classes, a compilation
  unit with four subprograms, and a world around them in which the project helpers cannot
  be imported.
\<close>

definition name_attr :: "string \<Rightarrow> attribute" where
  "name_attr s = \<lparr>attr_form = ''DW_FORM_string'', attr_value = BytesVal s\<rparr>"

definition addr_attr :: "int \<Rightarrow> attribute" where
  "addr_attr a = \<lparr>attr_form = ''DW_FORM_addr'', attr_value = IntVal a\<rparr>"

definition data_attr :: "int \<Rightarrow> attribute" where
  "data_attr n = \<lparr>attr_form = ''DW_FORM_data4'', attr_value = IntVal n\<rparr>"

definition offset_attr :: "int \<Rightarrow> attribute" where
  "offset_attr n = \<lparr>attr_form = ''DW_FORM_sec_offset'', attr_value = IntVal n\<rparr>"

definition ref_attr :: "int \<Rightarrow> attribute" where
  "ref_attr n = \<lparr>attr_form = ''DW_FORM_ref4'', attr_value = IntVal n\<rparr>"

definition example_entry :: range_entry where
  "example_entry =
     \<lparr>entry_type = ''<class 'elftools.dwarf.ranges.RangeEntry'>'',
      entry_dir = ''['begin_offset', 'end_offset']'',
      begin_offset = Some 16, end_offset = Some 32,
      begin_address = None, end_address = None, start_offset = None\<rparr>"

definition example_ranges :: "pyval \<Rightarrow> range_list raises" where
  "example_ranges off =
     (if off = IntVal 0 then Inr \<lparr>list_type = ''<class 'list'>'', entries = []\<rparr>
      else if off = IntVal 8 then
        Inr \<lparr>list_type = ''<class 'list'>'',
             entries = [example_entry,
                        example_entry\<lparr>begin_offset := Some 48, end_offset := Some 64\<rparr>]\<rparr>
      else Inl ''no range list'')"

definition example_form_class :: "string \<Rightarrow> string raises" where
  "example_form_class f =
     (if f = ''DW_FORM_addr'' then Inr ''address''
      else if f = ''DW_FORM_data4'' then Inr ''constant''
      else if f = ''DW_FORM_string'' then Inr ''string''
      else if f = ''DW_FORM_ref4'' then Inr ''reference''
      else Inl f)"

definition sub_die :: "(string \<rightharpoonup> attribute) \<Rightarrow> die" where
  "sub_die attrs = DIE ''DW_TAG_subprogram'' attrs []"

definition example_cu_die :: die where
  "example_cu_die =
     DIE ''DW_TAG_compile_unit'' [''DW_AT_name'' \<mapsto> name_attr ''a.c'']
       [sub_die [''DW_AT_name'' \<mapsto> name_attr ''f''],
        sub_die [''DW_AT_name'' \<mapsto> name_attr ''g'',
                 ''DW_AT_low_pc'' \<mapsto> addr_attr 4096, ''DW_AT_high_pc'' \<mapsto> addr_attr 4128],
        DIE ''DW_TAG_lexical_block'' Map.empty
          [sub_die [''DW_AT_name'' \<mapsto> name_attr ''h'',
                    ''DW_AT_low_pc'' \<mapsto> addr_attr 4128, ''DW_AT_high_pc'' \<mapsto> data_attr 16]],
        sub_die [''DW_AT_name'' \<mapsto> name_attr ''k'', ''DW_AT_ranges'' \<mapsto> offset_attr 8]]"

definition example_dwarf_info :: dwarf_info where
  "example_dwarf_info =
     \<lparr>iter_CUs = [\<lparr>get_top_DIE = example_cu_die\<rparr>,
                  \<lparr>get_top_DIE = DIE ''DW_TAG_compile_unit'' Map.empty []\<rparr>],
      get_range_list_at_offset = example_ranges\<rparr>"

definition example_cfg :: cfg where
  "example_cfg =
     \<lparr>cfg_functions = [(1024, \<lparr>fn_name = ''_start'', fn_size = 40\<rparr>),
                        (1064, \<lparr>fn_name = ''main'', fn_size = 96\<rparr>)],
      model_type = ''<class 'angr.knowledge_plugins.cfg.cfg_model.CFGModel'>''\<rparr>"

definition example_world :: world where
  "example_world =
     \<lparr>argv = [''diagnose_dwarf.py'', ''a.out''],
      elftools_version = ''0.31'',
      ELFFile = Inr \<lparr>has_dwarf_info = True, get_dwarf_info = example_dwarf_info\<rparr>,
      describe_form_class = example_form_class,
      dwarf_info_to_subprograms = Inl ''No module named 'src.analysis'; 'src' is not a package'',
      angr_version = Inr ''9.2.102'',
      Project = Inr \<lparr>project_text = ''<Project a.out>'', arch = ''<Arch ARMEL (LE)>''\<rparr>,
      CFGFast = Inr example_cfg,
      LessSimpleDominatorStrategy = Inl ''No module named 'src.analysis'; 'src' is not a package''\<rparr>"

definition no_dwarf_world :: world where
  "no_dwarf_world =
     example_world\<lparr>ELFFile := Inr \<lparr>has_dwarf_info = False, get_dwarf_info = example_dwarf_info\<rparr>\<rparr>"

text \<open>What the script prints in the example world: the DWARF summary, then the whole run.\<close>

definition example_summary_output :: "string list" where
  "example_summary_output =
     [''Analyzing: a.out'',
      ''pyelftools version: 0.31'',
      ''DWARF info found'',
      ''\<newline>  Subprogram: f - NO PC INFO'',
      ''\<newline>  Subprogram: g'',
      ''    low_pc=0x1000, high_pc=0x1020'',
      ''\<newline>  Subprogram: h'',
      ''    low_pc=0x1020, high_pc=0x1030'',
      ''\<newline>  Subprogram: k'',
      ''    Has DW_AT_ranges, offset=8'',
      ''    Range list type: <class 'list'>'',
      ''    First range entry type: <class 'elftools.dwarf.ranges.RangeEntry'>'',
      ''    First range entry attributes: ['begin_offset', 'end_offset']'',
      ''    Has begin_offset: 16'',
      ''    Has end_offset: 32'']"

definition example_output :: "string list" where
  "example_output =
     example_summary_output
     @ [''\<newline>=== Summary ==='',
        ''Compilation Units: 2'',
        ''Total subprograms: 4'',
        ''Subprograms with PC range: 3'',
        ''\<newline>=== Testing TYGR's DWARF parsing ==='',
        ''ERROR in TYGR parsing: No module named 'src.analysis'; 'src' is not a package'',
        ''\<newline>=== Testing Symbolic Execution ==='',
        ''angr version: 9.2.102'',
        ''Project loaded: <Project a.out>'',
        ''Architecture: <Arch ARMEL (LE)>'',
        ''\<newline>Generating CFG...'',
        ''CFG generated'',
        ''CFG functions: 2'',
        ''CFG model type: <class 'angr.knowledge_plugins.cfg.cfg_model.CFGModel'>'',
        ''\<newline>WARNING: Main function NOT found at 0x10908'',
        ''Available functions:'',
        ''  0x400: _start'',
        ''  0x428: main'',
        ''\<newline>=== Testing LessSimpleDominatorStrategy ==='',
        ''ERROR in symbolic execution test: No module named 'src.analysis'; 'src' is not a package'']"

text \<open>
  A world whose only compilation unit holds a subprogram named by the Latin-1 bytes of
  \<^verbatim>\<open>caf\xe9\<close>, which are not UTF-8.
\<close>

definition bad_name_world :: world where
  "bad_name_world =
     example_world\<lparr>ELFFile := Inr
       \<lparr>has_dwarf_info = True,
        get_dwarf_info =
          \<lparr>iter_CUs =
             [\<lparr>get_top_DIE = DIE ''DW_TAG_compile_unit'' Map.empty
                 [sub_die [''DW_AT_name'' \<mapsto> name_attr [CHR ''c'', CHR ''a'', CHR ''f'', CHR 0xE9]],
                  sub_die [''DW_AT_name'' \<mapsto> name_attr ''g'']]\<rparr>],
           get_range_list_at_offset = example_ranges\<rparr>\<rparr>\<rparr>"

section \<open>The example run\<close>

text \<open>
  The numbers of the examples as text, the fields of the example world, and what the
  example run prints.
\<close>

lemma example_numbers:
  "hex_int 4096 = ''0x1000''" "hex_int 4128 = ''0x1020''" "hex_int 4144 = ''0x1030''"
  "hex_int 1024 = ''0x400''" "hex_int 1064 = ''0x428''" "hex_int main_addr = ''0x10908''"
  "str_int 8 = ''8''" "str_int 16 = ''16''" "str_int 32 = ''32''"
  "str_nat 2 = ''2''" "str_nat 3 = ''3''" "str_nat 4 = ''4''"
  by (simp_all add: hex_int_def str_int_def str_nat_def main_addr_def
      hex_digits.simps dec_digits.simps digit_char_def)

lemma example_fields:
  "describe_form_class example_world = example_form_class"
  "get_range_list_at_offset example_dwarf_info = example_ranges"
  "iter_CUs example_dwarf_info =
     [\<lparr>get_top_DIE = example_cu_die\<rparr>,
      \<lparr>get_top_DIE = DIE ''DW_TAG_compile_unit'' Map.empty []\<rparr>]"
  by (simp_all add: example_world_def example_dwarf_info_def)

lemma example_dies:
  "process_die example_world example_dwarf_info (sub_die [''DW_AT_name'' \<mapsto> name_attr ''f'']) st =
     (st\<lparr>subprog_count := subprog_count st + 1,
         stdout := stdout st @ [''\<newline>  Subprogram: f - NO PC INFO'']\<rparr>, None)"
  "process_die example_world example_dwarf_info
     (sub_die [''DW_AT_name'' \<mapsto> name_attr ''g'',
               ''DW_AT_low_pc'' \<mapsto> addr_attr 4096, ''DW_AT_high_pc'' \<mapsto> addr_attr 4128]) st =
     (st\<lparr>subprog_count := subprog_count st + 1, subprog_with_pc := subprog_with_pc st + 1,
         stdout := stdout st @ [''\<newline>  Subprogram: g'', ''    low_pc=0x1000, high_pc=0x1020'']\<rparr>,
      None)"
  "process_die example_world example_dwarf_info
     (sub_die [''DW_AT_name'' \<mapsto> name_attr ''h'',
               ''DW_AT_low_pc'' \<mapsto> addr_attr 4128, ''DW_AT_high_pc'' \<mapsto> data_attr 16]) st =
     (st\<lparr>subprog_count := subprog_count st + 1, subprog_with_pc := subprog_with_pc st + 1,
         stdout := stdout st @ [''\<newline>  Subprogram: h'', ''    low_pc=0x1020, high_pc=0x1030'']\<rparr>,
      None)"
  "process_die example_world example_dwarf_info
     (sub_die [''DW_AT_name'' \<mapsto> name_attr ''k'', ''DW_AT_ranges'' \<mapsto> offset_attr 8]) st =
     (st\<lparr>subprog_count := subprog_count st + 1, subprog_with_pc := subprog_with_pc st + 1,
         stdout := stdout st @
           [''\<newline>  Subprogram: k'',
            ''    Has DW_AT_ranges, offset=8'',
            ''    Range list type: <class 'list'>'',
            ''    First range entry type: <class 'elftools.dwarf.ranges.RangeEntry'>'',
            ''    First range entry attributes: ['begin_offset', 'end_offset']'',
            ''    Has begin_offset: 16'',
            ''    Has end_offset: 32'']\<rparr>,
      None)"
  by (simp_all add: process_die_def sub_die_def get_func_name_def name_attr_def decode_utf8_def
      low_high_branch_def ranges_branch_def resolve_high_pc_def print_def print_lines_def
      example_fields example_form_class_def example_ranges_def report_first_range_def
      has_attr_def example_entry_def addr_attr_def data_attr_def offset_attr_def
      example_numbers)

lemma iter_die_sub_die: "iter_die (sub_die attrs) = [sub_die attrs]"
  by (simp add: sub_die_def)

lemma other_dies:
  "tag d \<noteq> ''DW_TAG_subprogram'' \<Longrightarrow> process_die w di d st = (st, None)"
  by (simp add: process_die_def)

lemma dwarf_summary_example:
  "dwarf_summary example_world example_dwarf_info
     [''Analyzing: a.out'', ''pyelftools version: 0.31'', ''DWARF info found''] =
   (\<lparr>cu_count = 2, subprog_count = 4, subprog_with_pc = 3, stdout = example_summary_output\<rparr>, None)"
  by (simp add: dwarf_summary_def example_fields example_cu_die_def iter_die_sub_die
      example_dies other_dies example_summary_output_def)

lemma main_example_world: "main example_world = (example_output, Finished)"
proof -
  have a: "argv example_world = [''diagnose_dwarf.py'', ''a.out'']"
    and v: "elftools_version example_world = ''0.31''"
    and e: "ELFFile example_world =
              Inr \<lparr>has_dwarf_info = True, get_dwarf_info = example_dwarf_info\<rparr>"
    and t: "dwarf_info_to_subprograms example_world =
              Inl ''No module named 'src.analysis'; 'src' is not a package''"
    and p: "angr_version example_world = Inr ''9.2.102''"
      "Project example_world =
         Inr \<lparr>project_text = ''<Project a.out>'', arch = ''<Arch ARMEL (LE)>''\<rparr>"
      "CFGFast example_world = Inr example_cfg"
      "LessSimpleDominatorStrategy example_world =
         Inl ''No module named 'src.analysis'; 'src' is not a package''"
    by (simp_all add: example_world_def)
  have c: "length (cfg_functions example_cfg) = 2"
    "model_type example_cfg = ''<class 'angr.knowledge_plugins.cfg.cfg_model.CFGModel'>''"
    "check_main_function example_cfg =
       [''\<newline>WARNING: Main function NOT found at 0x10908'', ''Available functions:'',
        ''  0x400: _start'', ''  0x428: main'']"
    by (simp_all add: example_cfg_def check_main_function_def main_addr_def example_numbers
        example_numbers [unfolded main_addr_def])
  show ?thesis
    by (simp add: main_def a v e dwarf_summary_example summary_def example_numbers
        tygr_parsing_test_def t symbolic_execution_test_def symbolic_execution_body_def p c
        example_output_def)
qed

section \<open>The PC range of a subprogram\<close>

text \<open>
  C1. A subprogram DIE without \<^verbatim>\<open>DW_AT_ranges\<close>, with integer \<^verbatim>\<open>DW_AT_low_pc\<close> and
  \<^verbatim>\<open>DW_AT_high_pc\<close>: the high bound is the high-PC value as it is when the form class is
  \<^verbatim>\<open>address\<close>, low plus that value when it is \<^verbatim>\<open>constant\<close>, and \<^verbatim>\<open>None\<close> for any
  other class; the low bound is the low-PC value itself, as the line printed for a non-zero
  high bound shows.
\<close>

theorem low_high_pc_bounds:
  assumes "tag die = ''DW_TAG_subprogram''"
    and "get_func_name die = Inr name"
    and "attributes die ''DW_AT_ranges'' = None"
    and "attributes die ''DW_AT_low_pc'' = Some low_attr"
    and "attr_value low_attr = IntVal low_pc"
    and "attributes die ''DW_AT_high_pc'' = Some highpc_attr"
    and "attr_value highpc_attr = IntVal v"
    and "describe_form_class w (attr_form highpc_attr) = Inr highpc_class"
    and "bound = (if highpc_class = ''address'' then Some v
                  else if highpc_class = ''constant'' then Some (low_pc + v)
                  else None)"
  shows "resolve_high_pc w (attr_value low_attr) highpc_attr = Inr (map_option IntVal bound)
    \<and> process_die w di die st =
        (case bound of
           None \<Rightarrow> (st\<lparr>subprog_count := subprog_count st + 1\<rparr>, None)
         | Some high_pc \<Rightarrow>
             if high_pc = 0 then (st\<lparr>subprog_count := subprog_count st + 1\<rparr>, None)
             else (st\<lparr>subprog_count := subprog_count st + 1,
                      subprog_with_pc := subprog_with_pc st + 1,
                      stdout := stdout st @
                        [''\<newline>  Subprogram: '' @ format_opt name,
                         ''    low_pc='' @ hex_int low_pc @ '', high_pc='' @ hex_int high_pc]\<rparr>,
                   None))"
proof -
  have r: "resolve_high_pc w (attr_value low_attr) highpc_attr = Inr (map_option IntVal bound)"
    using assms by (simp add: resolve_high_pc_def)
  have "process_die w di die st = low_high_branch w name die low_attr
          (st\<lparr>subprog_count := subprog_count st + 1\<rparr>)"
    using assms by (simp add: process_die_def)
  also have "\<dots> = (case bound of
           None \<Rightarrow> (st\<lparr>subprog_count := subprog_count st + 1\<rparr>, None)
         | Some high_pc \<Rightarrow>
             if high_pc = 0 then (st\<lparr>subprog_count := subprog_count st + 1\<rparr>, None)
             else (st\<lparr>subprog_count := subprog_count st + 1,
                      subprog_with_pc := subprog_with_pc st + 1,
                      stdout := stdout st @
                        [''\<newline>  Subprogram: '' @ format_opt name,
                         ''    low_pc='' @ hex_int low_pc @ '', high_pc='' @ hex_int high_pc]\<rparr>,
                   None))"
    using assms(4-7) r by (cases bound) (simp_all add: low_high_branch_def print_def)
  finally show ?thesis using r by simp
qed

theorem low_high_pc_bounds_witness:
  "resolve_high_pc example_world (IntVal 4096) (addr_attr 4128) = Inr (Some (IntVal 4128))
   \<and> process_die example_world example_dwarf_info
         (sub_die [''DW_AT_name'' \<mapsto> name_attr ''g'',
                   ''DW_AT_low_pc'' \<mapsto> addr_attr 4096, ''DW_AT_high_pc'' \<mapsto> addr_attr 4128])
         initial_state =
       (\<lparr>cu_count = 0, subprog_count = 1, subprog_with_pc = 1,
         stdout = [''\<newline>  Subprogram: g'', ''    low_pc=0x1000, high_pc=0x1020'']\<rparr>, None)
   \<and> resolve_high_pc example_world (IntVal 4128) (data_attr 16) = Inr (Some (IntVal 4144))
   \<and> process_die example_world example_dwarf_info
         (sub_die [''DW_AT_name'' \<mapsto> name_attr ''h'',
                   ''DW_AT_low_pc'' \<mapsto> addr_attr 4128, ''DW_AT_high_pc'' \<mapsto> data_attr 16])
         initial_state =
       (\<lparr>cu_count = 0, subprog_count = 1, subprog_with_pc = 1,
         stdout = [''\<newline>  Subprogram: h'', ''    low_pc=0x1020, high_pc=0x1030'']\<rparr>, None)
   \<and> resolve_high_pc example_world (IntVal 4096) (ref_attr 64) = Inr None
   \<and> process_die example_world example_dwarf_info
         (sub_die [''DW_AT_name'' \<mapsto> name_attr ''r'',
                   ''DW_AT_low_pc'' \<mapsto> addr_attr 4096, ''DW_AT_high_pc'' \<mapsto> ref_attr 64])
         initial_state =
       (\<lparr>cu_count = 0, subprog_count = 1, subprog_with_pc = 0, stdout = []\<rparr>, None)"
proof -
  let ?g = "sub_die [''DW_AT_name'' \<mapsto> name_attr ''g'',
                     ''DW_AT_low_pc'' \<mapsto> addr_attr 4096, ''DW_AT_high_pc'' \<mapsto> addr_attr 4128]"
  let ?h = "sub_die [''DW_AT_name'' \<mapsto> name_attr ''h'',
                     ''DW_AT_low_pc'' \<mapsto> addr_attr 4128, ''DW_AT_high_pc'' \<mapsto> data_attr 16]"
  let ?r = "sub_die [''DW_AT_name'' \<mapsto> name_attr ''r'',
                     ''DW_AT_low_pc'' \<mapsto> addr_attr 4096, ''DW_AT_high_pc'' \<mapsto> ref_attr 64]"
  have t: "tag ?g = ''DW_TAG_subprogram''" "tag ?h = ''DW_TAG_subprogram''"
    "tag ?r = ''DW_TAG_subprogram''"
    by (simp_all add: sub_die_def)
  have n: "get_func_name ?g = Inr (Some (StrVal ''g''))"
    "get_func_name ?h = Inr (Some (StrVal ''h''))"
    "get_func_name ?r = Inr (Some (StrVal ''r''))"
    by (simp_all add: get_func_name_def sub_die_def name_attr_def decode_utf8_def)
  have a: "attributes ?g ''DW_AT_ranges'' = None"
    "attributes ?g ''DW_AT_low_pc'' = Some (addr_attr 4096)"
    "attributes ?g ''DW_AT_high_pc'' = Some (addr_attr 4128)"
    "attributes ?h ''DW_AT_ranges'' = None"
    "attributes ?h ''DW_AT_low_pc'' = Some (addr_attr 4128)"
    "attributes ?h ''DW_AT_high_pc'' = Some (data_attr 16)"
    "attributes ?r ''DW_AT_ranges'' = None"
    "attributes ?r ''DW_AT_low_pc'' = Some (addr_attr 4096)"
    "attributes ?r ''DW_AT_high_pc'' = Some (ref_attr 64)"
    by (simp_all add: sub_die_def)
  have v: "attr_value (addr_attr 4096) = IntVal 4096" "attr_value (addr_attr 4128) = IntVal 4128"
    "attr_value (data_attr 16) = IntVal 16" "attr_value (ref_attr 64) = IntVal 64"
    by (simp_all add: addr_attr_def data_attr_def ref_attr_def)
  have c: "describe_form_class example_world (attr_form (addr_attr 4128)) = Inr ''address''"
    "describe_form_class example_world (attr_form (data_attr 16)) = Inr ''constant''"
    "describe_form_class example_world (attr_form (ref_attr 64)) = Inr ''reference''"
    by (simp_all add: example_world_def example_form_class_def addr_attr_def data_attr_def
        ref_attr_def)
  have b: "Some (4128 :: int) = (if ''address'' = ''address'' then Some 4128
                  else if ''address'' = ''constant'' then Some (4096 + 4128) else None)"
    "Some (4144 :: int) = (if ''constant'' = ''address'' then Some 16
                  else if ''constant'' = ''constant'' then Some (4128 + 16) else None)"
    "(None :: int option) = (if ''reference'' = ''address'' then Some 64
                  else if ''reference'' = ''constant'' then Some (4096 + 64) else None)"
    by simp_all
  show ?thesis
    using low_high_pc_bounds [OF t(1) n(1) a(1) a(2) v(1) a(3) v(2) c(1) b(1),
        of example_dwarf_info initial_state]
      low_high_pc_bounds [OF t(2) n(2) a(4) a(5) v(2) a(6) v(3) c(2) b(2),
        of example_dwarf_info initial_state]
      low_high_pc_bounds [OF t(3) n(3) a(7) a(8) v(1) a(9) v(4) c(3) b(3),
        of example_dwarf_info initial_state]
      example_numbers v
    by (simp add: initial_state_def)
qed

text \<open>
  C3. In the low/high-PC branch, a high-PC attribute whose resolved bound is false in
  \<^verbatim>\<open>if high_pc:\<close> (zero, or \<^verbatim>\<open>None\<close>) prints nothing and leaves the count of
  subprograms with a PC range as it was: the DIE is handled exactly as the same DIE
  without its high-PC attribute.
\<close>

theorem falsy_high_pc_is_absent:
  assumes "tag die = ''DW_TAG_subprogram''"
    and "get_func_name die = Inr name"
    and "attributes die ''DW_AT_ranges'' = None"
    and "attributes die ''DW_AT_low_pc'' = Some low_attr"
    and "attributes die ''DW_AT_high_pc'' = Some highpc_attr"
    and "resolve_high_pc w (attr_value low_attr) highpc_attr = Inr high_pc"
    and "\<not> truthy_opt high_pc"
  shows "process_die w di die st = (st\<lparr>subprog_count := subprog_count st + 1\<rparr>, None)
    \<and> process_die w di die st =
        process_die w di (DIE (tag die) ((attributes die)(''DW_AT_high_pc'' := None)) (children die)) st"
  using assms by (simp add: process_die_def low_high_branch_def get_func_name_def)

theorem falsy_high_pc_is_absent_witness:
  "resolve_high_pc example_world (IntVal 4096) (addr_attr 0) = Inr (Some (IntVal 0))
   \<and> \<not> truthy_opt (Some (IntVal 0))
   \<and> process_die example_world example_dwarf_info
         (sub_die [''DW_AT_name'' \<mapsto> name_attr ''z'',
                   ''DW_AT_low_pc'' \<mapsto> addr_attr 4096, ''DW_AT_high_pc'' \<mapsto> addr_attr 0])
         initial_state =
       (\<lparr>cu_count = 0, subprog_count = 1, subprog_with_pc = 0, stdout = []\<rparr>, None)
   \<and> resolve_high_pc example_world (IntVal 4096) (ref_attr 64) = Inr None
   \<and> \<not> truthy_opt None
   \<and> process_die example_world example_dwarf_info
         (sub_die [''DW_AT_name'' \<mapsto> name_attr ''r'',
                   ''DW_AT_low_pc'' \<mapsto> addr_attr 4096, ''DW_AT_high_pc'' \<mapsto> ref_attr 64])
         initial_state =
       (\<lparr>cu_count = 0, subprog_count = 1, subprog_with_pc = 0, stdout = []\<rparr>, None)"
proof -
  let ?z = "sub_die [''DW_AT_name'' \<mapsto> name_attr ''z'',
                     ''DW_AT_low_pc'' \<mapsto> addr_attr 4096, ''DW_AT_high_pc'' \<mapsto> addr_attr 0]"
  let ?r = "sub_die [''DW_AT_name'' \<mapsto> name_attr ''r'',
                     ''DW_AT_low_pc'' \<mapsto> addr_attr 4096, ''DW_AT_high_pc'' \<mapsto> ref_attr 64]"
  have t: "tag ?z = ''DW_TAG_subprogram''" "tag ?r = ''DW_TAG_subprogram''"
    by (simp_all add: sub_die_def)
  have n: "get_func_name ?z = Inr (Some (StrVal ''z''))"
    "get_func_name ?r = Inr (Some (StrVal ''r''))"
    by (simp_all add: get_func_name_def sub_die_def name_attr_def decode_utf8_def)
  have a: "attributes ?z ''DW_AT_ranges'' = None"
    "attributes ?z ''DW_AT_low_pc'' = Some (addr_attr 4096)"
    "attributes ?z ''DW_AT_high_pc'' = Some (addr_attr 0)"
    "attributes ?r ''DW_AT_ranges'' = None"
    "attributes ?r ''DW_AT_low_pc'' = Some (addr_attr 4096)"
    "attributes ?r ''DW_AT_high_pc'' = Some (ref_attr 64)"
    by (simp_all add: sub_die_def)
  have v: "resolve_high_pc example_world (attr_value (addr_attr 4096)) (addr_attr 0)
             = Inr (Some (IntVal 0))"
    "resolve_high_pc example_world (attr_value (addr_attr 4096)) (ref_attr 64) = Inr None"
    by (simp_all add: resolve_high_pc_def example_world_def example_form_class_def
        addr_attr_def ref_attr_def)
  have f: "\<not> truthy_opt (Some (IntVal 0))" "\<not> truthy_opt None" by simp_all
  have lv: "attr_value (addr_attr 4096) = IntVal 4096" by (simp add: addr_attr_def)
  show ?thesis
    using falsy_high_pc_is_absent [OF t(1) n(1) a(1) a(2) a(3) v(1) f(1),
        of example_dwarf_info initial_state]
      falsy_high_pc_is_absent [OF t(2) n(2) a(4) a(5) a(6) v(2) f(2),
        of example_dwarf_info initial_state]
      v f lv
    by (simp add: initial_state_def)
qed

text \<open>
  C4. A subprogram DIE with neither a \<^verbatim>\<open>DW_AT_ranges\<close> nor a \<^verbatim>\<open>DW_AT_low_pc\<close>
  attribute, whose name decodes, makes the script print the one line
  \<^verbatim>\<open>Subprogram: <name> - NO PC INFO\<close>; the total subprogram count goes up by one, and the
  count of subprograms with a PC range is unchanged.
\<close>

theorem no_pc_info_reported:
  assumes "tag die = ''DW_TAG_subprogram''"
    and "get_func_name die = Inr name"
    and "attributes die ''DW_AT_ranges'' = None"
    and "attributes die ''DW_AT_low_pc'' = None"
  shows "process_die w di die st =
      (st\<lparr>subprog_count := subprog_count st + 1,
          stdout := stdout st @ [''\<newline>  Subprogram: '' @ format_opt name @ '' - NO PC INFO'']\<rparr>, None)"
  using assms by (simp add: process_die_def print_def)

theorem no_pc_info_reported_witness:
  "tag (sub_die [''DW_AT_name'' \<mapsto> name_attr ''f'']) = ''DW_TAG_subprogram''
   \<and> get_func_name (sub_die [''DW_AT_name'' \<mapsto> name_attr ''f'']) = Inr (Some (StrVal ''f''))
   \<and> attributes (sub_die [''DW_AT_name'' \<mapsto> name_attr ''f'']) ''DW_AT_ranges'' = None
   \<and> attributes (sub_die [''DW_AT_name'' \<mapsto> name_attr ''f'']) ''DW_AT_low_pc'' = None
   \<and> process_die example_world example_dwarf_info
         (sub_die [''DW_AT_name'' \<mapsto> name_attr ''f'']) initial_state =
       (\<lparr>cu_count = 0, subprog_count = 1, subprog_with_pc = 0,
         stdout = [''\<newline>  Subprogram: f - NO PC INFO'']\<rparr>, None)"
proof -
  let ?d = "sub_die [''DW_AT_name'' \<mapsto> name_attr ''f'']"
  have t: "tag ?d = ''DW_TAG_subprogram''" by (simp add: sub_die_def)
  have n: "get_func_name ?d = Inr (Some (StrVal ''f''))"
    by (simp add: get_func_name_def sub_die_def name_attr_def decode_utf8_def)
  have r: "attributes ?d ''DW_AT_ranges'' = None" by (simp add: sub_die_def)
  have l: "attributes ?d ''DW_AT_low_pc'' = None" by (simp add: sub_die_def)
  show ?thesis
    using no_pc_info_reported [OF t n r l, of example_world example_dwarf_info initial_state] t n r l
    by (simp add: initial_state_def)
qed

text \<open>
  C10. A subprogram DIE with a low PC but no usable high bound (no high-PC attribute, or
  one that resolves to zero or \<^verbatim>\<open>None\<close>) prints nothing at all and is not counted as
  having a PC range. A subprogram DIE whose \<^verbatim>\<open>DW_AT_ranges\<close> resolves to an empty list
  prints its three header lines (name, offset, type of the list), none of which is the
  \<^verbatim>\<open>NO PC INFO\<close> line, and is not counted either.
\<close>

theorem skipped_without_report:
  assumes "tag die = ''DW_TAG_subprogram''"
    and "get_func_name die = Inr name"
  shows "(attributes die ''DW_AT_ranges'' = None
          \<and> attributes die ''DW_AT_low_pc'' = Some low_attr
          \<and> (attributes die ''DW_AT_high_pc'' = None
               \<or> (\<exists>highpc_attr high_pc.
                     attributes die ''DW_AT_high_pc'' = Some highpc_attr
                     \<and> resolve_high_pc w (attr_value low_attr) highpc_attr = Inr high_pc
                     \<and> \<not> truthy_opt high_pc))
          \<longrightarrow> process_die w di die st = (st\<lparr>subprog_count := subprog_count st + 1\<rparr>, None))
    \<and> (attributes die ''DW_AT_ranges'' = Some ranges_attr
          \<and> get_range_list_at_offset di (attr_value ranges_attr) = Inr ranges
          \<and> entries ranges = []
          \<longrightarrow> process_die w di die st =
                (st\<lparr>subprog_count := subprog_count st + 1,
                    stdout := stdout st @
                      [''\<newline>  Subprogram: '' @ format_opt name,
                       ''    Has DW_AT_ranges, offset='' @ format (attr_value ranges_attr),
                       ''    Range list type: '' @ list_type ranges]\<rparr>, None)
              \<and> ''\<newline>  Subprogram: '' @ format_opt name @ '' - NO PC INFO''
                  \<notin> {''\<newline>  Subprogram: '' @ format_opt name,
                       ''    Has DW_AT_ranges, offset='' @ format (attr_value ranges_attr),
                       ''    Range list type: '' @ list_type ranges})"
  using assms
  by (auto simp add: process_die_def low_high_branch_def ranges_branch_def print_lines_def)

theorem skipped_without_report_witness:
  "process_die example_world example_dwarf_info
     (sub_die [''DW_AT_name'' \<mapsto> name_attr ''p'', ''DW_AT_low_pc'' \<mapsto> addr_attr 4096])
     initial_state =
     (\<lparr>cu_count = 0, subprog_count = 1, subprog_with_pc = 0, stdout = []\<rparr>, None)
   \<and> get_range_list_at_offset example_dwarf_info (attr_value (offset_attr 0)) =
       Inr \<lparr>list_type = ''<class 'list'>'', entries = []\<rparr>
   \<and> process_die example_world example_dwarf_info
     (sub_die [''DW_AT_name'' \<mapsto> name_attr ''q'', ''DW_AT_ranges'' \<mapsto> offset_attr 0])
     initial_state =
     (\<lparr>cu_count = 0, subprog_count = 1, subprog_with_pc = 0,
       stdout = [''\<newline>  Subprogram: q'', ''    Has DW_AT_ranges, offset=0'',
                 ''    Range list type: <class 'list'>'']\<rparr>, None)"
proof -
  let ?p = "sub_die [''DW_AT_name'' \<mapsto> name_attr ''p'', ''DW_AT_low_pc'' \<mapsto> addr_attr 4096]"
  let ?q = "sub_die [''DW_AT_name'' \<mapsto> name_attr ''q'', ''DW_AT_ranges'' \<mapsto> offset_attr 0]"
  let ?rl = "\<lparr>list_type = ''<class 'list'>'', entries = []\<rparr>"
  have tp: "tag ?p = ''DW_TAG_subprogram''" and tq: "tag ?q = ''DW_TAG_subprogram''"
    by (simp_all add: sub_die_def)
  have np: "get_func_name ?p = Inr (Some (StrVal ''p''))"
    and nq: "get_func_name ?q = Inr (Some (StrVal ''q''))"
    by (simp_all add: get_func_name_def sub_die_def name_attr_def decode_utf8_def)
  have ap: "attributes ?p ''DW_AT_ranges'' = None"
    "attributes ?p ''DW_AT_low_pc'' = Some (addr_attr 4096)"
    "attributes ?p ''DW_AT_high_pc'' = None"
    by (simp_all add: sub_die_def)
  have aq: "attributes ?q ''DW_AT_ranges'' = Some (offset_attr 0)"
    by (simp add: sub_die_def)
  have rq: "get_range_list_at_offset example_dwarf_info (attr_value (offset_attr 0)) = Inr ?rl"
    by (simp add: example_dwarf_info_def example_ranges_def offset_attr_def)
  have e: "entries ?rl = []" by simp
  have v: "attr_value (offset_attr 0) = IntVal 0" by (simp add: offset_attr_def)
  have s: "str_int 0 = ''0''" by (simp add: str_int_def dec_digits.simps digit_char_def)
  show ?thesis
    using skipped_without_report [where die = ?p and name = "Some (StrVal ''p'')"
            and low_attr = "addr_attr 4096" and w = example_world and di = example_dwarf_info
            and ranges_attr = "offset_attr 0" and ranges = ?rl and st = initial_state]
      skipped_without_report [where die = ?q and name = "Some (StrVal ''q'')"
            and low_attr = "addr_attr 4096" and w = example_world and di = example_dwarf_info
            and ranges_attr = "offset_attr 0" and ranges = ?rl and st = initial_state]
      tp tq np nq
      ap aq rq e v s
    by (simp add: initial_state_def)
qed

text \<open>
  C6, as amended. For a subprogram whose \<^verbatim>\<open>DW_AT_ranges\<close> resolves to a non-empty list,
  the script prints the three header lines and the report on the first entry only: one
  range entry is reported, whatever the length of the list, and the subprogram is counted
  as having a PC range.
\<close>

theorem first_range_entry_only:
  assumes "tag die = ''DW_TAG_subprogram''"
    and "get_func_name die = Inr name"
    and "attributes die ''DW_AT_ranges'' = Some ranges_attr"
    and "get_range_list_at_offset di (attr_value ranges_attr) = Inr ranges"
    and "entries ranges = first_range # rest"
    and "printed =
           [''\<newline>  Subprogram: '' @ format_opt name,
            ''    Has DW_AT_ranges, offset='' @ format (attr_value ranges_attr),
            ''    Range list type: '' @ list_type ranges]
           @ report_first_range first_range"
  shows "process_die w di die st =
           (st\<lparr>subprog_count := subprog_count st + 1,
               subprog_with_pc := subprog_with_pc st + 1,
               stdout := stdout st @ printed\<rparr>, None)
    \<and> range_entries_printed printed = 1"
proof -
  have "range_entries_printed printed = 1"
    unfolding assms(6)
    by (simp add: range_entries_printed_def report_first_range_def has_attr_def
        split: option.splits)
  moreover have "process_die w di die st =
           (st\<lparr>subprog_count := subprog_count st + 1,
               subprog_with_pc := subprog_with_pc st + 1,
               stdout := stdout st @ printed\<rparr>, None)"
    using assms by (simp add: process_die_def ranges_branch_def print_lines_def)
  ultimately show ?thesis by simp
qed

theorem first_range_entry_only_witness:
  "get_range_list_at_offset example_dwarf_info (attr_value (offset_attr 8)) =
     Inr \<lparr>list_type = ''<class 'list'>'',
          entries = [example_entry,
                     example_entry\<lparr>begin_offset := Some 48, end_offset := Some 64\<rparr>]\<rparr>
   \<and> process_die example_world example_dwarf_info
         (sub_die [''DW_AT_name'' \<mapsto> name_attr ''k'', ''DW_AT_ranges'' \<mapsto> offset_attr 8])
         initial_state =
       (\<lparr>cu_count = 0, subprog_count = 1, subprog_with_pc = 1,
         stdout = [''\<newline>  Subprogram: k'',
                   ''    Has DW_AT_ranges, offset=8'',
                   ''    Range list type: <class 'list'>'',
                   ''    First range entry type: <class 'elftools.dwarf.ranges.RangeEntry'>'',
                   ''    First range entry attributes: ['begin_offset', 'end_offset']'',
                   ''    Has begin_offset: 16'',
                   ''    Has end_offset: 32'']\<rparr>, None)"
proof -
  let ?k = "sub_die [''DW_AT_name'' \<mapsto> name_attr ''k'', ''DW_AT_ranges'' \<mapsto> offset_attr 8]"
  let ?second = "example_entry\<lparr>begin_offset := Some 48, end_offset := Some 64\<rparr>"
  let ?rl = "\<lparr>list_type = ''<class 'list'>'', entries = [example_entry, ?second]\<rparr>"
  have t: "tag ?k = ''DW_TAG_subprogram''" by (simp add: sub_die_def)
  have n: "get_func_name ?k = Inr (Some (StrVal ''k''))"
    by (simp add: get_func_name_def sub_die_def name_attr_def decode_utf8_def)
  have a: "attributes ?k ''DW_AT_ranges'' = Some (offset_attr 8)" by (simp add: sub_die_def)
  have r: "get_range_list_at_offset example_dwarf_info (attr_value (offset_attr 8)) = Inr ?rl"
    by (simp add: example_dwarf_info_def example_ranges_def offset_attr_def)
  have e: "entries ?rl = example_entry # [?second]" by simp
  have s: "str_int 8 = ''8''" "str_int 16 = ''16''" "str_int 32 = ''32''"
    by (simp_all add: str_int_def dec_digits.simps digit_char_def)
  show ?thesis
    using first_range_entry_only [OF t n a r e refl, of example_world initial_state] r s
    by (simp add: initial_state_def offset_attr_def report_first_range_def has_attr_def
        example_entry_def)
qed

text \<open>
  C6, as stated, fails: the range list at offset 8 of the example has two entries, and
  the script reports one.
\<close>

theorem range_entries_printed_counterexample:
  "get_range_list_at_offset example_dwarf_info (attr_value (offset_attr 8)) =
     Inr \<lparr>list_type = ''<class 'list'>'',
          entries = [example_entry,
                     example_entry\<lparr>begin_offset := Some 48, end_offset := Some 64\<rparr>]\<rparr>
   \<and> range_entries_printed
        (stdout (fst (process_die example_world example_dwarf_info
           (sub_die [''DW_AT_name'' \<mapsto> name_attr ''k'', ''DW_AT_ranges'' \<mapsto> offset_attr 8])
           initial_state)))
       \<noteq> length [example_entry,
                   example_entry\<lparr>begin_offset := Some 48, end_offset := Some 64\<rparr>]"
  by (simp add: example_dwarf_info_def example_ranges_def offset_attr_def process_die_def
      sub_die_def get_func_name_def name_attr_def decode_utf8_def ranges_branch_def
      print_lines_def initial_state_def range_entries_printed_def report_first_range_def
      has_attr_def example_entry_def)

section \<open>The walk over the DIE tree\<close>

text \<open>
  The paths of a tree in the order of \<open>preorder_paths\<close>: which paths they are, which DIEs
  they lead to, and that they come in the order \<open>path_before\<close>.
\<close>

lemma paths_from_set:
  "set (preorder_paths_from i cs) = {j # p | j p. i \<le> j \<and> j < i + length cs \<and> p \<in> set (preorder_paths (cs ! (j - i)))}"
proof (induction cs arbitrary: i)
  case Nil
  then show ?case by simp
next
  case (Cons c cs)
  show ?case
  proof (rule set_eqI)
    fix x
    show "x \<in> set (preorder_paths_from i (c # cs)) \<longleftrightarrow>
          x \<in> {j # p | j p. i \<le> j \<and> j < i + length (c # cs) \<and> p \<in> set (preorder_paths ((c # cs) ! (j - i)))}"
    proof
      assume "x \<in> set (preorder_paths_from i (c # cs))"
      then consider (a) "x \<in> (#) i ` set (preorder_paths c)" | (b) "x \<in> set (preorder_paths_from (Suc i) cs)"
        by auto
      then show "x \<in> {j # p | j p. i \<le> j \<and> j < i + length (c # cs) \<and> p \<in> set (preorder_paths ((c # cs) ! (j - i)))}"
      proof cases
        case a
        then show ?thesis by auto
      next
        case b
        then obtain j p where "x = j # p" "Suc i \<le> j" "j < Suc i + length cs" "p \<in> set (preorder_paths (cs ! (j - Suc i)))"
          unfolding Cons.IH by auto
        moreover have "(c # cs) ! (j - i) = cs ! (j - Suc i)" using \<open>Suc i \<le> j\<close>
          by (metis Suc_diff_Suc Suc_le_lessD nth_Cons_Suc)
        ultimately show ?thesis by auto
      qed
    next
      assume "x \<in> {j # p | j p. i \<le> j \<and> j < i + length (c # cs) \<and> p \<in> set (preorder_paths ((c # cs) ! (j - i)))}"
      then obtain j p where x: "x = j # p" "i \<le> j" "j < i + length (c # cs)" "p \<in> set (preorder_paths ((c # cs) ! (j - i)))"
        by auto
      show "x \<in> set (preorder_paths_from i (c # cs))"
      proof (cases "j = i")
        case True
        then show ?thesis using x by simp
      next
        case False
        then have "Suc i \<le> j" using x by simp
        moreover have "(c # cs) ! (j - i) = cs ! (j - Suc i)" using \<open>Suc i \<le> j\<close>
          by (metis Suc_diff_Suc Suc_le_lessD nth_Cons_Suc)
        ultimately have "x \<in> set (preorder_paths_from (Suc i) cs)"
          unfolding Cons.IH using x by auto
        then show ?thesis by simp
      qed
    qed
  qed
qed

lemma paths_from_die_at:
  assumes "\<And>c. c \<in> set cs \<Longrightarrow> map (die_at c) (preorder_paths c) = map Some (iter_die c)"
  shows "map (die_at (DIE t a (pre @ cs))) (preorder_paths_from (length pre) cs)
         = map Some (concat (map iter_die cs))"
  using assms
proof (induction cs arbitrary: pre)
  case Nil
  then show ?case by simp
next
  case (Cons c cs)
  have h: "map (die_at (DIE t a (pre @ c # cs))) (map ((#) (length pre)) (preorder_paths c))
           = map Some (iter_die c)"
    using Cons.prems [of c] by (simp add: comp_def)
  have "map (die_at (DIE t a ((pre @ [c]) @ cs))) (preorder_paths_from (length (pre @ [c])) cs)
        = map Some (concat (map iter_die cs))"
    using Cons.prems by (intro Cons.IH) simp
  then have r: "map (die_at (DIE t a (pre @ c # cs))) (preorder_paths_from (Suc (length pre)) cs)
        = map Some (concat (map iter_die cs))"
    by simp
  show ?case using h r by simp
qed

lemma preorder_paths_die_at:
  "map (die_at d) (preorder_paths d) = map Some (iter_die d)"
proof (induction d)
  case (DIE t a cs)
  have "map (die_at (DIE t a ([] @ cs))) (preorder_paths_from (length ([] :: die list)) cs)
        = map Some (concat (map iter_die cs))"
    by (rule paths_from_die_at) (rule DIE.IH)
  then show ?case by simp
qed

lemma preorder_paths_set: "set (preorder_paths d) = {p. die_at d p \<noteq> None}"
proof (induction d)
  case (DIE t a cs)
  have "p \<in> set (preorder_paths (DIE t a cs)) \<longleftrightarrow> die_at (DIE t a cs) p \<noteq> None" for p
  proof (cases p)
    case Nil
    then show ?thesis by simp
  next
    case (Cons j q)
    have "j # q \<in> set (preorder_paths_from 0 cs) \<longleftrightarrow>
          j < length cs \<and> q \<in> set (preorder_paths (cs ! j))"
      by (simp add: paths_from_set)
    also have "\<dots> \<longleftrightarrow> j < length cs \<and> die_at (cs ! j) q \<noteq> None"
      using DIE.IH by auto
    finally show ?thesis using Cons by simp
  qed
  then show ?case by blast
qed

lemma paths_from_sorted:
  assumes "\<And>c. c \<in> set cs \<Longrightarrow> sorted_wrt path_before (preorder_paths c)"
  shows "sorted_wrt path_before (preorder_paths_from i cs)"
  using assms
proof (induction cs arbitrary: i)
  case Nil
  then show ?case by simp
next
  case (Cons c cs)
  have a: "sorted_wrt path_before (map ((#) i) (preorder_paths c))"
    using Cons.prems [of c] by (simp add: sorted_wrt_map)
  have b: "sorted_wrt path_before (preorder_paths_from (Suc i) cs)"
    using Cons.prems by (intro Cons.IH) simp
  have c: "path_before x y"
    if "x \<in> set (map ((#) i) (preorder_paths c))" "y \<in> set (preorder_paths_from (Suc i) cs)"
    for x y
  proof -
    from that(1) obtain p where x: "x = i # p" by auto
    from that(2) obtain j q where y: "y = j # q" "Suc i \<le> j"
      unfolding paths_from_set by auto
    show ?thesis using x y by simp
  qed
  show ?case using a b c by (simp add: sorted_wrt_append)
qed

lemma preorder_paths_sorted: "sorted_wrt path_before (preorder_paths d)"
proof (induction d)
  case (DIE t a cs)
  have "sorted_wrt path_before (preorder_paths_from 0 cs)"
    by (rule paths_from_sorted) (rule DIE.IH)
  moreover have "path_before [] y" if "y \<in> set (preorder_paths_from 0 cs)" for y
    using that unfolding paths_from_set by auto
  ultimately show ?case by simp
qed

lemma path_before_below: "path_before p (p @ i # q)"
  by (induction p) simp_all

lemma path_before_next_child: "i < j \<Longrightarrow> path_before (p @ i # q) (p @ j # r)"
  by (induction p) simp_all

lemma path_before_irrefl: "\<not> path_before p p"
  by (induction p) simp_all

lemma sorted_paths_distinct: "sorted_wrt path_before ps \<Longrightarrow> distinct ps"
  by (induction ps) (auto simp add: path_before_irrefl)

text \<open>
  C8. The DIEs that \<^verbatim>\<open>iter_die\<close> yields are the DIEs at a sequence of positions of the
  tree that holds every position of the tree, each once, in the order \<open>path_before\<close>: a
  position comes before every position below it, and everything below the child \<open>i\<close> of a
  node comes before everything below its child \<open>j\<close> when \<open>i < j\<close>. That is the subtree
  of the root, each DIE once, in depth-first pre-order.
\<close>

theorem iter_die_preorder:
  "\<exists>ps. map (die_at d) ps = map Some (iter_die d)
        \<and> set ps = {p. die_at d p \<noteq> None}
        \<and> distinct ps
        \<and> sorted_wrt path_before ps"
proof -
  let ?ps = "preorder_paths d"
  have "map (die_at d) ?ps = map Some (iter_die d)" by (rule preorder_paths_die_at)
  moreover have "set ?ps = {p. die_at d p \<noteq> None}" by (rule preorder_paths_set)
  moreover have "sorted_wrt path_before ?ps" by (rule preorder_paths_sorted)
  moreover from this have "distinct ?ps" by (rule sorted_paths_distinct)
  ultimately show ?thesis by blast
qed

theorem iter_die_preorder_witness:
  "iter_die example_cu_die =
     [example_cu_die,
      sub_die [''DW_AT_name'' \<mapsto> name_attr ''f''],
      sub_die [''DW_AT_name'' \<mapsto> name_attr ''g'',
               ''DW_AT_low_pc'' \<mapsto> addr_attr 4096, ''DW_AT_high_pc'' \<mapsto> addr_attr 4128],
      DIE ''DW_TAG_lexical_block'' Map.empty
        [sub_die [''DW_AT_name'' \<mapsto> name_attr ''h'',
                  ''DW_AT_low_pc'' \<mapsto> addr_attr 4128, ''DW_AT_high_pc'' \<mapsto> data_attr 16]],
      sub_die [''DW_AT_name'' \<mapsto> name_attr ''h'',
               ''DW_AT_low_pc'' \<mapsto> addr_attr 4128, ''DW_AT_high_pc'' \<mapsto> data_attr 16],
      sub_die [''DW_AT_name'' \<mapsto> name_attr ''k'', ''DW_AT_ranges'' \<mapsto> offset_attr 8]]
   \<and> map (die_at example_cu_die) [[], [0], [1], [2], [2, 0], [3]]
       = map Some (iter_die example_cu_die)
   \<and> sorted_wrt path_before [[], [0], [1], [2], [2, 0], [3]]
   \<and> (\<exists>ps. map (die_at example_cu_die) ps = map Some (iter_die example_cu_die)
         \<and> set ps = {p. die_at example_cu_die p \<noteq> None}
         \<and> distinct ps
         \<and> sorted_wrt path_before ps)"
proof -
  have a: "iter_die example_cu_die =
     [example_cu_die,
      sub_die [''DW_AT_name'' \<mapsto> name_attr ''f''],
      sub_die [''DW_AT_name'' \<mapsto> name_attr ''g'',
               ''DW_AT_low_pc'' \<mapsto> addr_attr 4096, ''DW_AT_high_pc'' \<mapsto> addr_attr 4128],
      DIE ''DW_TAG_lexical_block'' Map.empty
        [sub_die [''DW_AT_name'' \<mapsto> name_attr ''h'',
                  ''DW_AT_low_pc'' \<mapsto> addr_attr 4128, ''DW_AT_high_pc'' \<mapsto> data_attr 16]],
      sub_die [''DW_AT_name'' \<mapsto> name_attr ''h'',
               ''DW_AT_low_pc'' \<mapsto> addr_attr 4128, ''DW_AT_high_pc'' \<mapsto> data_attr 16],
      sub_die [''DW_AT_name'' \<mapsto> name_attr ''k'', ''DW_AT_ranges'' \<mapsto> offset_attr 8]]"
    by (simp add: example_cu_die_def iter_die_sub_die)
  have b: "map (die_at example_cu_die) [[], [0], [1], [2], [2, 0], [3]]
           = map Some (iter_die example_cu_die)"
    unfolding a by (simp add: example_cu_die_def)
  have c: "sorted_wrt path_before [[], [0], [1], [2], [2, 0], [3]]"
    by simp
  from a b c iter_die_preorder [of example_cu_die] show ?thesis by blast
qed

section \<open>The counts of the summary\<close>

lemma ranges_branch_counts:
  "cu_count (ranges_branch di name ra st) = cu_count st
   \<and> subprog_count (ranges_branch di name ra st) = subprog_count st"
  by (simp add: ranges_branch_def print_lines_def Let_def split: sum.splits list.splits)

lemma low_high_branch_counts:
  "low_high_branch w name die la st = (st', r) \<Longrightarrow>
   cu_count st' = cu_count st \<and> subprog_count st' = subprog_count st"
  by (auto simp add: low_high_branch_def print_def Let_def
      split: option.splits sum.splits if_splits)

lemma process_die_counts:
  assumes "process_die w di die st = (st', r)"
  shows "cu_count st' = cu_count st"
    and "subprog_count st' = subprog_count st + (if tag die = ''DW_TAG_subprogram'' then 1 else 0)"
  using assms low_high_branch_counts [of w _ die _ "st\<lparr>subprog_count := subprog_count st + 1\<rparr>" st' r]
    ranges_branch_counts [of di _ _ "st\<lparr>subprog_count := subprog_count st + 1\<rparr>"]
  by (auto simp add: process_die_def print_def Let_def
      split: option.splits sum.splits if_splits)

lemma for_dies_counts:
  "for_dies w di dies st = (st', None) \<Longrightarrow>
   cu_count st' = cu_count st
   \<and> subprog_count st' = subprog_count st + length (filter (\<lambda>d. tag d = ''DW_TAG_subprogram'') dies)"
proof (induction dies arbitrary: st)
  case Nil
  then show ?case by simp
next
  case (Cons d dies)
  obtain st1 r where p: "process_die w di d st = (st1, r)" by (cases "process_die w di d st")
  with Cons.prems have r: "r = None" and f: "for_dies w di dies st1 = (st', None)"
    by (auto split: option.splits)
  from process_die_counts [OF p] Cons.IH [OF f] show ?case by simp
qed

lemma count_subprograms_iter_die:
  "length (filter (\<lambda>d. tag d = ''DW_TAG_subprogram'') (iter_die d)) = count_subprograms d"
proof (induction d)
  case (DIE t a cs)
  have "length (filter (\<lambda>d. tag d = ''DW_TAG_subprogram'') (concat (map iter_die cs)))
        = sum_list (map count_subprograms cs)"
    using DIE.IH by (induction cs) auto
  then show ?case by simp
qed

lemma for_CUs_counts:
  "for_CUs w di cus st = (st', None) \<Longrightarrow>
   cu_count st' = cu_count st + length cus
   \<and> subprog_count st' =
       subprog_count st + sum_list (map (\<lambda>cu. count_subprograms (get_top_DIE cu)) cus)"
proof (induction cus arbitrary: st)
  case Nil
  then show ?case by simp
next
  case (Cons cu cus)
  let ?st1 = "st\<lparr>cu_count := cu_count st + 1\<rparr>"
  obtain st2 r where d: "for_dies w di (iter_die (get_top_DIE cu)) ?st1 = (st2, r)"
    by (cases "for_dies w di (iter_die (get_top_DIE cu)) ?st1")
  with Cons.prems have r: "r = None" and f: "for_CUs w di cus st2 = (st', None)"
    by (auto simp add: Let_def split: option.splits)
  from for_dies_counts [OF d [unfolded r]] Cons.IH [OF f] show ?case
    by (simp add: count_subprograms_iter_die)
qed

text \<open>
  C5. When the script runs to its end, on a binary whose DWARF information has \<open>N\<close>
  compilation units whose DIE trees hold \<open>M\<close> subprogram DIEs, the summary it prints
  reads \<^verbatim>\<open>Compilation Units: N\<close> and \<^verbatim>\<open>Total subprograms: M\<close>.
\<close>

theorem summary_counts:
  assumes "main w = (out, Finished)"
    and "ELFFile w = Inr elf"
  shows "\<exists>before with_pc.
           out = before
             @ [''\<newline>=== Summary ==='',
                ''Compilation Units: '' @ str_nat (length (iter_CUs (get_dwarf_info elf))),
                ''Total subprograms: '' @ str_nat
                   (sum_list (map (\<lambda>cu. count_subprograms (get_top_DIE cu))
                      (iter_CUs (get_dwarf_info elf)))),
                ''Subprograms with PC range: '' @ str_nat with_pc]
             @ tygr_parsing_test w @ symbolic_execution_test w"
proof -
  let ?di = "get_dwarf_info elf"
  let ?out0 = "[''Analyzing: '' @ argv w ! 1, ''pyelftools version: '' @ elftools_version w,
                ''DWARF info found'']"
  obtain st r where s: "dwarf_summary w ?di ?out0 = (st, r)"
    by (cases "dwarf_summary w ?di ?out0")
  from assms s have r: "r = None"
    and o: "out = stdout st @ summary st @ tygr_parsing_test w @ symbolic_execution_test w"
    by (auto simp add: main_def Let_def split: if_splits option.splits)
  from s r have "for_CUs w ?di (iter_CUs ?di)
       \<lparr>cu_count = 0, subprog_count = 0, subprog_with_pc = 0, stdout = ?out0\<rparr> = (st, None)"
    by (simp add: dwarf_summary_def)
  from for_CUs_counts [OF this]
  have "cu_count st = length (iter_CUs ?di)"
    and "subprog_count st = sum_list (map (\<lambda>cu. count_subprograms (get_top_DIE cu)) (iter_CUs ?di))"
    by simp_all
  with o have "out = stdout st
             @ [''\<newline>=== Summary ==='',
                ''Compilation Units: '' @ str_nat (length (iter_CUs ?di)),
                ''Total subprograms: '' @ str_nat
                   (sum_list (map (\<lambda>cu. count_subprograms (get_top_DIE cu)) (iter_CUs ?di))),
                ''Subprograms with PC range: '' @ str_nat (subprog_with_pc st)]
             @ tygr_parsing_test w @ symbolic_execution_test w"
    by (simp add: summary_def)
  then show ?thesis by blast
qed

theorem summary_counts_witness:
  "main example_world = (example_output, Finished)
   \<and> length (iter_CUs example_dwarf_info) = 2
   \<and> sum_list (map (\<lambda>cu. count_subprograms (get_top_DIE cu)) (iter_CUs example_dwarf_info)) = 4
   \<and> (\<exists>before with_pc.
         example_output = before
           @ [''\<newline>=== Summary ==='', ''Compilation Units: 2'', ''Total subprograms: 4'',
              ''Subprograms with PC range: '' @ str_nat with_pc]
           @ tygr_parsing_test example_world @ symbolic_execution_test example_world)"
proof -
  have e: "ELFFile example_world =
             Inr \<lparr>has_dwarf_info = True, get_dwarf_info = example_dwarf_info\<rparr>"
    by (simp add: example_world_def)
  have n: "length (iter_CUs example_dwarf_info) = 2"
    by (simp add: example_fields)
  have m: "sum_list (map (\<lambda>cu. count_subprograms (get_top_DIE cu)) (iter_CUs example_dwarf_info)) = 4"
    by (simp add: example_fields example_cu_die_def sub_die_def)
  show ?thesis
    using summary_counts [OF main_example_world e] main_example_world n m example_numbers
    by simp
qed

section \<open>Exits and guarded phases\<close>

text \<open>
  C2. When the binary opens and has no DWARF information, the script prints the path
  and the library version, then exactly \<^verbatim>\<open>ERROR: No DWARF info in binary\<close>, and exits
  with status 1: nothing of the compilation units is processed or printed.
\<close>

theorem no_dwarf_info_exits:
  assumes "2 \<le> length (argv w)"
    and "ELFFile w = Inr elf"
    and "\<not> has_dwarf_info elf"
  shows "main w =
      ([''Analyzing: '' @ argv w ! 1,
        ''pyelftools version: '' @ elftools_version w,
        ''ERROR: No DWARF info in binary''], Exited 1)"
  using assms by (simp add: main_def)

theorem no_dwarf_info_exits_witness:
  "2 \<le> length (argv no_dwarf_world)
   \<and> main no_dwarf_world =
       ([''Analyzing: a.out'', ''pyelftools version: 0.31'', ''ERROR: No DWARF info in binary''],
        Exited 1)"
proof -
  let ?elf = "\<lparr>has_dwarf_info = False, get_dwarf_info = example_dwarf_info\<rparr>"
  have a: "2 \<le> length (argv no_dwarf_world)"
    by (simp add: no_dwarf_world_def example_world_def)
  have e: "ELFFile no_dwarf_world = Inr ?elf" by (simp add: no_dwarf_world_def)
  have h: "\<not> has_dwarf_info ?elf" by simp
  show ?thesis
    using no_dwarf_info_exits [OF a e h] a
    by (simp add: no_dwarf_world_def example_world_def)
qed

text \<open>
  C7, as amended. The cross-check and the symbolic-execution test are each inside a
  \<^verbatim>\<open>try\<close> of their own: once the DWARF summary has completed, both run, whatever is raised
  in either, and what is raised is printed as an \<^verbatim>\<open>ERROR\<close> line. The DWARF summary has no
  \<^verbatim>\<open>try\<close> around it: only the resolution of a range list is guarded, for one subprogram at
  a time, and any other exception raised in the summary ends the script there.
\<close>

theorem later_phases_guarded:
  assumes "2 \<le> length (argv w)"
    and "ELFFile w = Inr elf"
    and "has_dwarf_info elf"
    and "dwarf_summary w (get_dwarf_info elf)
           [''Analyzing: '' @ argv w ! 1, ''pyelftools version: '' @ elftools_version w,
            ''DWARF info found''] = (st, raised)"
  shows "(raised = None \<longrightarrow>
            main w = (stdout st @ summary st @ tygr_parsing_test w @ symbolic_execution_test w,
                      Finished))
    \<and> (\<forall>e. raised = Some e \<longrightarrow> main w = (stdout st, Uncaught e))
    \<and> (\<exists>rest. tygr_parsing_test w = ''\<newline>=== Testing TYGR's DWARF parsing ==='' # rest)
    \<and> (\<forall>msg. dwarf_info_to_subprograms w = Inl msg \<longrightarrow>
           tygr_parsing_test w =
             [''\<newline>=== Testing TYGR's DWARF parsing ==='', ''ERROR in TYGR parsing: '' @ msg])
    \<and> (\<exists>rest. symbolic_execution_test w = ''\<newline>=== Testing Symbolic Execution ==='' # rest)
    \<and> (\<forall>out msg. symbolic_execution_body w = (out, Some msg) \<longrightarrow>
           symbolic_execution_test w =
             ''\<newline>=== Testing Symbolic Execution ==='' # out
             @ [''ERROR in symbolic execution test: '' @ msg])
    \<and> (\<forall>die name ranges_attr msg s.
           tag die = ''DW_TAG_subprogram'' \<and> get_func_name die = Inr name
           \<and> attributes die ''DW_AT_ranges'' = Some ranges_attr
           \<and> get_range_list_at_offset (get_dwarf_info elf) (attr_value ranges_attr) = Inl msg \<longrightarrow>
           process_die w (get_dwarf_info elf) die s =
             (s\<lparr>subprog_count := subprog_count s + 1,
                stdout := stdout s @
                  [''\<newline>  Subprogram: '' @ format_opt name,
                   ''    ERROR processing ranges: '' @ msg]\<rparr>, None))"
proof -
  have m: "main w = (case raised of
             None \<Rightarrow> (stdout st @ summary st @ tygr_parsing_test w @ symbolic_execution_test w,
                       Finished)
           | Some e \<Rightarrow> (stdout st, Uncaught e))"
    using assms by (simp add: main_def split: option.splits)
  have t: "\<exists>rest. tygr_parsing_test w = ''\<newline>=== Testing TYGR's DWARF parsing ==='' # rest"
    by (simp add: tygr_parsing_test_def)
  have x: "\<exists>rest. symbolic_execution_test w = ''\<newline>=== Testing Symbolic Execution ==='' # rest"
    by (simp add: symbolic_execution_test_def)
  have r: "process_die w di die s =
             (s\<lparr>subprog_count := subprog_count s + 1,
                stdout := stdout s @
                  [''\<newline>  Subprogram: '' @ format_opt name,
                   ''    ERROR processing ranges: '' @ msg]\<rparr>, None)"
    if "tag die = ''DW_TAG_subprogram''" "get_func_name die = Inr name"
      "attributes die ''DW_AT_ranges'' = Some ranges_attr"
      "get_range_list_at_offset di (attr_value ranges_attr) = Inl msg"
    for di die name ranges_attr msg s
    using that by (simp add: process_die_def ranges_branch_def print_lines_def)
  show ?thesis
    using m t x r
    by (simp add: tygr_parsing_test_def symbolic_execution_test_def)
qed

theorem later_phases_guarded_witness:
  "dwarf_summary example_world example_dwarf_info
     [''Analyzing: a.out'', ''pyelftools version: 0.31'', ''DWARF info found''] =
     (\<lparr>cu_count = 2, subprog_count = 4, subprog_with_pc = 3, stdout = example_summary_output\<rparr>,
      None)
   \<and> dwarf_info_to_subprograms example_world =
       Inl ''No module named 'src.analysis'; 'src' is not a package''
   \<and> LessSimpleDominatorStrategy example_world =
       Inl ''No module named 'src.analysis'; 'src' is not a package''
   \<and> main example_world = (example_output, Finished)"
proof -
  let ?elf = "\<lparr>has_dwarf_info = True, get_dwarf_info = example_dwarf_info\<rparr>"
  have a: "2 \<le> length (argv example_world)" by (simp add: example_world_def)
  have e: "ELFFile example_world = Inr ?elf" by (simp add: example_world_def)
  have h: "has_dwarf_info ?elf" by simp
  have f: "argv example_world ! 1 = ''a.out''" "elftools_version example_world = ''0.31''"
    "dwarf_info_to_subprograms example_world =
       Inl ''No module named 'src.analysis'; 'src' is not a package''"
    "LessSimpleDominatorStrategy example_world =
       Inl ''No module named 'src.analysis'; 'src' is not a package''"
    by (simp_all add: example_world_def)
  have g: "''Analyzing: '' @ argv example_world ! 1 = ''Analyzing: a.out''"
    "''pyelftools version: '' @ elftools_version example_world = ''pyelftools version: 0.31''"
    by (simp_all add: example_world_def)
  have d: "dwarf_summary example_world (get_dwarf_info ?elf)
            [''Analyzing: '' @ argv example_world ! 1,
             ''pyelftools version: '' @ elftools_version example_world, ''DWARF info found''] =
           (\<lparr>cu_count = 2, subprog_count = 4, subprog_with_pc = 3,
             stdout = example_summary_output\<rparr>, None)"
    unfolding g by (simp add: dwarf_summary_example)
  have "main example_world =
          (example_summary_output
           @ summary \<lparr>cu_count = 2, subprog_count = 4, subprog_with_pc = 3,
                      stdout = example_summary_output\<rparr>
           @ tygr_parsing_test example_world @ symbolic_execution_test example_world, Finished)"
    using later_phases_guarded [OF a e h d] by simp
  then show ?thesis
    using dwarf_summary_example f main_example_world by simp
qed

text \<open>
  C7, as stated, fails: a subprogram name that is not UTF-8 raises in the DWARF summary,
  nothing catches it, and neither later phase runs.
\<close>

theorem unguarded_summary_counterexample:
  "2 \<le> length (argv bad_name_world)
   \<and> map_sum id has_dwarf_info (ELFFile bad_name_world) = Inr True
   \<and> main bad_name_world =
       ([''Analyzing: a.out'', ''pyelftools version: 0.31'', ''DWARF info found''],
        Uncaught UnicodeDecodeError)"
  by (simp add: bad_name_world_def example_world_def main_def dwarf_summary_def sub_die_def
      process_die_def get_func_name_def name_attr_def decode_utf8_def cont_byte_def)

text \<open>
  C9. When \<^verbatim>\<open>0x10908\<close> is not a key of the function map, the script prints the
  warning, the line \<^verbatim>\<open>Available functions:\<close> and one line (address and name) for each of
  the first ten functions at most, raises nothing, and goes on to the strategy test inside
  the same \<^verbatim>\<open>try\<close> block.
\<close>

theorem absent_main_listed:
  assumes "map_of (cfg_functions c) main_addr = None"
    and "angr_version w = Inr v"
    and "Project w = Inr proj"
    and "CFGFast w = Inr c"
  shows "check_main_function c =
           [''\<newline>WARNING: Main function NOT found at 0x10908'', ''Available functions:'']
           @ map (\<lambda>(addr, fn). ''  '' @ hex_int addr @ '': '' @ fn_name fn)
               (take 10 (cfg_functions c))
    \<and> length (check_main_function c) \<le> 2 + 10
    \<and> (\<exists>rest raised. symbolic_execution_body w =
          ([''angr version: '' @ v,
            ''Project loaded: '' @ project_text proj,
            ''Architecture: '' @ arch proj,
            ''\<newline>Generating CFG...'',
            ''CFG generated'',
            ''CFG functions: '' @ str_nat (length (cfg_functions c)),
            ''CFG model type: '' @ model_type c]
           @ check_main_function c
           @ [''\<newline>=== Testing LessSimpleDominatorStrategy ===''] @ rest, raised))"
proof -
  have x: "hex_int main_addr = ''0x10908''"
    by (simp add: hex_int_def main_addr_def hex_digits.simps digit_char_def)
  have a: "check_main_function c =
           [''\<newline>WARNING: Main function NOT found at 0x10908'', ''Available functions:'']
           @ map (\<lambda>(addr, fn). ''  '' @ hex_int addr @ '': '' @ fn_name fn)
               (take 10 (cfg_functions c))"
    using assms(1) x by (simp add: check_main_function_def)
  have b: "length (check_main_function c) \<le> 2 + 10"
    unfolding a by simp
  have c: "\<exists>rest raised. symbolic_execution_body w =
          ([''angr version: '' @ v,
            ''Project loaded: '' @ project_text proj,
            ''Architecture: '' @ arch proj,
            ''\<newline>Generating CFG...'',
            ''CFG generated'',
            ''CFG functions: '' @ str_nat (length (cfg_functions c)),
            ''CFG model type: '' @ model_type c]
           @ check_main_function c
           @ [''\<newline>=== Testing LessSimpleDominatorStrategy ===''] @ rest, raised)"
    using assms(2-4)
    by (cases "LessSimpleDominatorStrategy w") (simp_all add: symbolic_execution_body_def)
  from a b c show ?thesis by blast
qed

theorem absent_main_listed_witness:
  "map_of (cfg_functions example_cfg) main_addr = None
   \<and> check_main_function example_cfg =
       [''\<newline>WARNING: Main function NOT found at 0x10908'', ''Available functions:'',
        ''  0x400: _start'', ''  0x428: main'']
   \<and> symbolic_execution_test example_world =
       [''\<newline>=== Testing Symbolic Execution ==='',
        ''angr version: 9.2.102'',
        ''Project loaded: <Project a.out>'',
        ''Architecture: <Arch ARMEL (LE)>'',
        ''\<newline>Generating CFG...'',
        ''CFG generated'',
        ''CFG functions: 2'',
        ''CFG model type: <class 'angr.knowledge_plugins.cfg.cfg_model.CFGModel'>'',
        ''\<newline>WARNING: Main function NOT found at 0x10908'', ''Available functions:'',
        ''  0x400: _start'', ''  0x428: main'',
        ''\<newline>=== Testing LessSimpleDominatorStrategy ==='',
        ''ERROR in symbolic execution test: No module named 'src.analysis'; 'src' is not a package'']"
proof -
  have m: "map_of (cfg_functions example_cfg) main_addr = None"
    by (simp add: example_cfg_def main_addr_def)
  have v: "angr_version example_world = Inr ''9.2.102''"
    and p: "Project example_world =
              Inr \<lparr>project_text = ''<Project a.out>'', arch = ''<Arch ARMEL (LE)>''\<rparr>"
    and c: "CFGFast example_world = Inr example_cfg"
    and s: "LessSimpleDominatorStrategy example_world = Inl ''No module named 'src.analysis'; 'src' is not a package''"
    by (simp_all add: example_world_def)
  have x: "hex_int 1024 = ''0x400''" "hex_int 1064 = ''0x428''" "str_nat 2 = ''2''"
    by (simp_all add: hex_int_def str_nat_def hex_digits.simps dec_digits.simps digit_char_def)
  have l: "length (cfg_functions example_cfg) = 2"
    and t: "model_type example_cfg = ''<class 'angr.knowledge_plugins.cfg.cfg_model.CFGModel'>''"
    by (simp_all add: example_cfg_def)
  have k: "check_main_function example_cfg =
       [''\<newline>WARNING: Main function NOT found at 0x10908'', ''Available functions:'',
        ''  0x400: _start'', ''  0x428: main'']"
    using absent_main_listed [OF m v p c] x by (simp add: example_cfg_def)
  have "symbolic_execution_test example_world =
       [''\<newline>=== Testing Symbolic Execution ==='',
        ''angr version: 9.2.102'',
        ''Project loaded: <Project a.out>'',
        ''Architecture: <Arch ARMEL (LE)>'',
        ''\<newline>Generating CFG...'',
        ''CFG generated'',
        ''CFG functions: 2'',
        ''CFG model type: <class 'angr.knowledge_plugins.cfg.cfg_model.CFGModel'>'']
       @ check_main_function example_cfg
       @ [''\<newline>=== Testing LessSimpleDominatorStrategy ==='',
          ''ERROR in symbolic execution test: No module named 'src.analysis'; 'src' is not a package'']"
    using v p c s x l t
    by (simp add: symbolic_execution_test_def symbolic_execution_body_def)
  with k m show ?thesis by simp
qed

end
